theory Spec2Isabelle
  imports Main "HOL-Library.AList"
begin

section \<open>Python values and exceptions\<close>

text \<open>
  Text is a list of characters. A character of the model is a code point below 256, so
  the model covers the Latin-1 part of Python's \<open>str\<close>.

  A value decoded from JSON is one of Python's \<open>None\<close>, \<open>bool\<close>, \<open>int\<close>, \<open>float\<close>,
  \<open>str\<close>, \<open>list\<close> and \<open>dict\<close>. A float keeps the text it was read from, since none of the
  code modelled here computes with it. A \<open>dict\<close> is an association list in insertion
  order with distinct keys.
\<close>

datatype json =
    JNull
  | JBool bool
  | JInt int
  | JFloat string
  | JStr string
  | JArr "json list"
  | JObj "(string \<times> json) list"

text \<open>
  The exceptions the modelled code raises or lets through. \<open>LibraryError\<close> stands for any
  exception (a subclass of \<open>Exception\<close>) raised inside a library the code calls:
  the PDF reader, the OCR engine, \<open>open\<close>, the csv module, the model transport.

  \<open>FailedToParse content\<close> is the \<open>ValueError\<close> of \<open>generate_structured\<close>, whose
  message holds the text of the JSONDecodeError of \<open>content\<close> and \<open>content\<close> itself.
  \<open>JSONDecodeError doc\<close> is the error \<open>json.loads\<close> raises on a text \<open>doc\<close> that is not
  JSON. \<open>RecursionError\<close> is what \<open>json.loads\<close> raises instead on a text nested too
  deeply for the interpreter; it is not a JSONDecodeError.
\<close>

datatype exc =
    FileNotFoundError string
  | ImportError string
  | UnicodeDecodeError
  | JSONDecodeError string
  | FailedToParse string
  | AttributeError
  | KeyError string
  | TypeError
  | ValueError
  | OverflowError
  | RecursionError
  | LibraryError string

subsection \<open>Strings\<close>

definition is_space :: "char \<Rightarrow> bool" where
  \<comment> \<open>\<open>str.isspace\<close> on code points below 256\<close>
  "is_space c = (let n = (of_char c :: nat) in
     (9 \<le> n \<and> n \<le> 13) \<or> (28 \<le> n \<and> n \<le> 32) \<or> n = 133 \<or> n = 160)"

definition lstrip :: "string \<Rightarrow> string" where
  "lstrip s = dropWhile is_space s"

definition rstrip :: "string \<Rightarrow> string" where
  "rstrip s = rev (dropWhile is_space (rev s))"

definition strip :: "string \<Rightarrow> string" where
  "strip s = rstrip (lstrip s)"

definition startswith :: "string \<Rightarrow> string \<Rightarrow> bool" where
  \<comment> \<open>\<open>s.startswith(p)\<close>\<close>
  "startswith s p = (take (length p) s = p)"

fun split_on :: "char \<Rightarrow> string \<Rightarrow> string list" where
  \<comment> \<open>\<open>s.split(c)\<close> for a separator of one character\<close>
  "split_on c [] = [[]]"
| "split_on c (x # xs) =
     (if x = c then [] # split_on c xs
      else (case split_on c xs of
              [] \<Rightarrow> [[x]]
            | w # ws \<Rightarrow> (x # w) # ws))"

fun join_on :: "char \<Rightarrow> string list \<Rightarrow> string" where
  \<comment> \<open>\<open>c.join(ws)\<close>\<close>
  "join_on c [] = []"
| "join_on c [w] = w"
| "join_on c (w # ws) = w @ c # join_on c ws"

definition digit_char :: "nat \<Rightarrow> char" where
  "digit_char d = char_of (48 + d)"

function str_nat :: "nat \<Rightarrow> string" where
  \<comment> \<open>\<open>str(n)\<close> for a natural number\<close>
  "str_nat n = (if n < 10 then [digit_char n] else str_nat (n div 10) @ [digit_char (n mod 10)])"
  by pat_completeness auto
termination
  by (relation "measure id") auto

definition str_int :: "int \<Rightarrow> string" where
  "str_int i = (if i < 0 then CHR ''-'' # str_nat (nat (- i)) else str_nat (nat i))"

subsection \<open>Dictionaries\<close>

definition dict_get :: "(string \<times> 'a) list \<Rightarrow> string \<Rightarrow> 'a \<Rightarrow> 'a" where
  \<comment> \<open>\<open>d.get(k, default)\<close>\<close>
  "dict_get d k dflt = (case map_of d k of None \<Rightarrow> dflt | Some v \<Rightarrow> v)"

definition dict_set :: "(string \<times> 'a) list \<Rightarrow> string \<Rightarrow> 'a \<Rightarrow> (string \<times> 'a) list" where
  \<comment> \<open>\<open>d[k] = v\<close>: a known key keeps its place, a new key goes last\<close>
  "dict_set d k v = AList.update k v d"

definition dict_keys :: "(string \<times> 'a) list \<Rightarrow> string list" where
  "dict_keys d = map fst d"

section \<open>A reader for JSON text\<close>

text \<open>
  \<open>json.loads\<close> belongs to Python's standard library. The functions of the program take
  it as a parameter \<open>loads\<close> that gives the value read (\<open>Inr\<close>) or the exception raised
  (\<open>Inl\<close>): a JSONDecodeError for a text that is not JSON, or any other exception, which
  the code treats differently. The general theorems hold for every such function.
  \<open>json_loads\<close> below is a reader for JSON text that follows the grammar \<open>json.loads\<close>
  accepts; it supplies the concrete instance on which the program is run at explicit
  inputs. It reads \<open>\u\<close> escapes only below code point 256, keeps a number with a
  fraction or an exponent as its text, and has no limit on nesting. The recursion of
  \<open>parse_json\<close> is bounded by the number of characters left to read.
\<close>

definition is_json_ws :: "char \<Rightarrow> bool" where
  "is_json_ws c = (c = CHR '' '' \<or> c = CHR 0x09 \<or> c = CHR 0x0A \<or> c = CHR 0x0D)"

definition skip_ws :: "string \<Rightarrow> string" where
  "skip_ws s = dropWhile is_json_ws s"

definition is_digit :: "char \<Rightarrow> bool" where
  "is_digit c = (48 \<le> (of_char c :: nat) \<and> (of_char c :: nat) \<le> 57)"

definition digit_val :: "char \<Rightarrow> nat" where
  "digit_val c = of_char c - 48"

definition nat_of_digits :: "string \<Rightarrow> nat" where
  "nat_of_digits ds = foldl (\<lambda>acc c. 10 * acc + digit_val c) 0 ds"

definition hex_val :: "char \<Rightarrow> nat option" where
  "hex_val c =
     (if is_digit c then Some (digit_val c)
      else if 97 \<le> (of_char c :: nat) \<and> (of_char c :: nat) \<le> 102 then Some (of_char c - 87)
      else if 65 \<le> (of_char c :: nat) \<and> (of_char c :: nat) \<le> 70 then Some (of_char c - 55)
      else None)"

fun parse_string_body :: "string \<Rightarrow> (string \<times> string) option" where
  \<comment> \<open>the characters after an opening quote, up to and past the closing quote\<close>
  "parse_string_body [] = None"
| "parse_string_body (c # cs) =
     (if c = CHR 0x22 then Some ([], cs)
      else if c = CHR 0x5C then
        (case cs of
           [] \<Rightarrow> None
         | e # r \<Rightarrow>
            (if e = CHR ''u'' then
               (case r of
                  h1 # h2 # h3 # h4 # r' \<Rightarrow>
                    (case (hex_val h1, hex_val h2, hex_val h3, hex_val h4) of
                       (Some a, Some b, Some c', Some d) \<Rightarrow>
                         (if a = 0 \<and> b = 0 then
                            (case parse_string_body r' of
                               None \<Rightarrow> None
                             | Some (s, rest) \<Rightarrow> Some (char_of (16 * c' + d) # s, rest))
                          else None)
                     | _ \<Rightarrow> None)
                | _ \<Rightarrow> None)
             else
               (case (if e = CHR 0x22 then Some (CHR 0x22)
                      else if e = CHR 0x5C then Some (CHR 0x5C)
                      else if e = CHR ''/'' then Some (CHR ''/'')
                      else if e = CHR ''b'' then Some (CHR 0x08)
                      else if e = CHR ''f'' then Some (CHR 0x0C)
                      else if e = CHR ''n'' then Some (CHR 0x0A)
                      else if e = CHR ''r'' then Some (CHR 0x0D)
                      else if e = CHR ''t'' then Some (CHR 0x09)
                      else None) of
                  None \<Rightarrow> None
                | Some x \<Rightarrow>
                   (case parse_string_body r of
                      None \<Rightarrow> None
                    | Some (s, rest) \<Rightarrow> Some (x # s, rest)))))
      else if (of_char c :: nat) < 32 then None
      else (case parse_string_body cs of
              None \<Rightarrow> None
            | Some (s, rest) \<Rightarrow> Some (c # s, rest)))"

definition parse_number :: "string \<Rightarrow> (json \<times> string) option" where
  \<comment> \<open>\<open>-?(0|[1-9][0-9]*)(.[0-9]+)?([eE][+-]?[0-9]+)?\<close>\<close>
  "parse_number s =
     (let (sign, s1) = (case s of c # r \<Rightarrow> if c = CHR ''-'' then (''-'', r) else ([], s) | [] \<Rightarrow> ([], s));
          ds = takeWhile is_digit s1;
          ip = (case ds of [] \<Rightarrow> [] | d # r \<Rightarrow> if d = CHR ''0'' then [d] else ds);
          s2 = drop (length ip) s1;
          fr = (case s2 of
                  c # r \<Rightarrow> if c = CHR ''.'' \<and> takeWhile is_digit r \<noteq> []
                            then c # takeWhile is_digit r else []
                | [] \<Rightarrow> []);
          s3 = drop (length fr) s2;
          ex = (case s3 of
                  c # r \<Rightarrow>
                    if c = CHR ''e'' \<or> c = CHR ''E'' then
                      (case r of
                         g # r' \<Rightarrow>
                           if (g = CHR ''+'' \<or> g = CHR ''-'') \<and> takeWhile is_digit r' \<noteq> []
                           then c # g # takeWhile is_digit r'
                           else if takeWhile is_digit r \<noteq> [] then c # takeWhile is_digit r
                           else []
                       | [] \<Rightarrow> [])
                    else []
                | [] \<Rightarrow> []);
          s4 = drop (length ex) s3
      in if ip = [] then None
         else if fr = [] \<and> ex = [] then
           Some (JInt ((if sign = [] then 1 else - 1) * int (nat_of_digits ip)), s4)
         else Some (JFloat (sign @ ip @ fr @ ex), s4))"

fun parse_value :: "nat \<Rightarrow> string \<Rightarrow> (json \<times> string) option"
  and parse_elems :: "nat \<Rightarrow> string \<Rightarrow> (json list \<times> string) option"
  and parse_members :: "nat \<Rightarrow> string \<Rightarrow> ((string \<times> json) list \<times> string) option"
where
  "parse_value 0 s = None"
| "parse_value (Suc n) s =
     (case s of
        [] \<Rightarrow> None
      | c # cs \<Rightarrow>
         (if c = CHR 0x22 then
            (case parse_string_body cs of
               None \<Rightarrow> None
             | Some (str, rest) \<Rightarrow> Some (JStr str, rest))
          else if c = CHR ''{'' then
            (case skip_ws cs of
               [] \<Rightarrow> None
             | d # ds \<Rightarrow>
                if d = CHR ''}'' then Some (JObj [], ds)
                else (case parse_members n (d # ds) of
                        None \<Rightarrow> None
                      | Some (kvs, rest) \<Rightarrow>
                          Some (JObj (foldl (\<lambda>acc kv. AList.update (fst kv) (snd kv) acc) [] kvs), rest)))
          else if c = CHR ''['' then
            (case skip_ws cs of
               [] \<Rightarrow> None
             | d # ds \<Rightarrow>
                if d = CHR '']'' then Some (JArr [], ds)
                else (case parse_elems n (d # ds) of
                        None \<Rightarrow> None
                      | Some (vs, rest) \<Rightarrow> Some (JArr vs, rest)))
          else if take 4 s = ''null'' then Some (JNull, drop 4 s)
          else if take 4 s = ''true'' then Some (JBool True, drop 4 s)
          else if take 5 s = ''false'' then Some (JBool False, drop 5 s)
          else if take 3 s = ''NaN'' then Some (JFloat ''NaN'', drop 3 s)
          else if take 8 s = ''Infinity'' then Some (JFloat ''Infinity'', drop 8 s)
          else if take 9 s = ''-Infinity'' then Some (JFloat ''-Infinity'', drop 9 s)
          else parse_number s))"
| "parse_elems 0 s = None"
| "parse_elems (Suc n) s =
     (case parse_value n s of
        None \<Rightarrow> None
      | Some (v, rest) \<Rightarrow>
         (case skip_ws rest of
            [] \<Rightarrow> None
          | c # cs \<Rightarrow>
             if c = CHR '']'' then Some ([v], cs)
             else if c = CHR '','' then
               (case parse_elems n (skip_ws cs) of
                  None \<Rightarrow> None
                | Some (vs, rest') \<Rightarrow> Some (v # vs, rest'))
             else None))"
| "parse_members 0 s = None"
| "parse_members (Suc n) s =
     (case s of
        [] \<Rightarrow> None
      | q # qs \<Rightarrow>
         if q \<noteq> CHR 0x22 then None
         else
          (case parse_string_body qs of
             None \<Rightarrow> None
           | Some (k, r1) \<Rightarrow>
              (case skip_ws r1 of
                 [] \<Rightarrow> None
               | c # r2 \<Rightarrow>
                  if c \<noteq> CHR '':'' then None
                  else
                   (case parse_value n (skip_ws r2) of
                      None \<Rightarrow> None
                    | Some (v, r3) \<Rightarrow>
                       (case skip_ws r3 of
                          [] \<Rightarrow> None
                        | e # r4 \<Rightarrow>
                           if e = CHR ''}'' then Some ([(k, v)], r4)
                           else if e = CHR '','' then
                             (case parse_members n (skip_ws r4) of
                                None \<Rightarrow> None
                              | Some (kvs, r5) \<Rightarrow> Some ((k, v) # kvs, r5))
                           else None)))))"

definition parse_json :: "string \<Rightarrow> json option" where
  "parse_json s =
     (case parse_value (Suc (length s)) (skip_ws s) of
        None \<Rightarrow> None
      | Some (v, rest) \<Rightarrow> if skip_ws rest = [] then Some v else None)"

definition json_loads :: "string \<Rightarrow> exc + json" where
  "json_loads s = (case parse_json s of None \<Rightarrow> Inl (JSONDecodeError s) | Some v \<Rightarrow> Inr v)"

section \<open>Structured generation: decoding the model's text (llm_client.py)\<close>

definition brace_span :: "string \<Rightarrow> string option" where
  \<comment> \<open>\<open>re.search(r'\{[\s\S]*\}', content)\<close>: from the first opening brace to the last
      closing brace after it\<close>
  "brace_span content =
     (let t = dropWhile (\<lambda>c. c \<noteq> CHR ''{'') content;
          r = rev (dropWhile (\<lambda>c. c \<noteq> CHR ''}'') (rev t))
      in if r = [] then None else Some r)"

definition fence :: string where
  "fence = [CHR 0x60, CHR 0x60, CHR 0x60]"

definition response_content :: "string \<Rightarrow> string" where
  \<comment> \<open>lines 155-160: strip, then drop the first and the last line of a fenced block\<close>
  "response_content raw =
     (let content = strip raw
      in if startswith content fence
         then join_on CHR 0x0A (butlast (tl (split_on CHR 0x0A content)))
         else content)"

definition is_JSONDecodeError :: "exc \<Rightarrow> bool" where
  \<comment> \<open>whether \<open>except json.JSONDecodeError\<close> catches the exception\<close>
  "is_JSONDecodeError e = (case e of JSONDecodeError _ \<Rightarrow> True | _ \<Rightarrow> False)"

definition decode_response :: "(string \<Rightarrow> exc + json) \<Rightarrow> string \<Rightarrow> exc + json" where
  \<comment> \<open>lines 155-170 of \<open>ClaudeClient.generate_structured\<close>, on the text of the response:
      only a JSONDecodeError of the first \<open>json.loads\<close> is caught, and the second
      \<open>json.loads\<close> stands in no handler\<close>
  "decode_response loads raw =
     (let content = response_content raw
      in case loads content of
           Inr v \<Rightarrow> Inr v
         | Inl e \<Rightarrow>
            if is_JSONDecodeError e then
              (case brace_span content of
                 Some span \<Rightarrow> loads span
               | None \<Rightarrow> Inl (FailedToParse content))
            else Inl e)"

section \<open>Ingestion (document_processor.py)\<close>

text \<open>
  A value stored in a document's \<open>metadata\<close> mapping. \<open>MAverage s n\<close> is the quotient
  \<open>s / n\<close> of \<open>sum(confidences) / len(confidences)\<close>, kept as its two operands.
\<close>

datatype meta =
    MInt int
  | MBool bool
  | MStr string
  | MInfo "(string \<times> string) list"
  | MSize nat nat
  | MAverage nat nat
  | MJson json

text \<open>The creation time \<open>extracted_at\<close> is read from the clock and is left out.\<close>

record ExtractedDocument =
  file_path :: string
  file_type :: string
  raw_text :: string
  pages :: "string list"
  tables :: "string list list list"
  images :: "string list"
  metadata :: "(string \<times> meta) list"
  extraction_method :: string

definition new_document :: "string \<Rightarrow> string \<Rightarrow> string \<Rightarrow> ExtractedDocument" where
  \<comment> \<open>\<open>ExtractedDocument(file_path, file_type, raw_text)\<close> with the defaults of the dataclass\<close>
  "new_document fp ft txt =
     \<lparr>file_path = fp, file_type = ft, raw_text = txt, pages = [], tables = [], images = [],
      metadata = [], extraction_method = ''unknown''\<rparr>"

text \<open>
  What the code reads from outside itself. A page of an opened PDF answers
  \<open>extract_text()\<close> (which may be \<open>None\<close>) and \<open>extract_tables()\<close> (cells may be \<open>None\<close>),
  and either may raise. An opened image has a size and a mode.
\<close>

record pdf_page =
  extract_text :: "exc + string option"
  extract_tables :: "exc + string option list list list"

record pdf_file =
  pdf_pages :: "pdf_page list"
  pdf_metadata :: "(string \<times> string) list option"

record image =
  image_size :: "nat \<times> nat"
  image_mode :: string
  image_id :: nat

record environment =
  resolve :: "string \<Rightarrow> string"
    \<comment> \<open>\<open>str(Path(p).resolve())\<close>\<close>
  path_exists :: "string \<Rightarrow> bool"
    \<comment> \<open>\<open>os.path.exists\<close>\<close>
  import_pdfplumber :: bool
    \<comment> \<open>whether \<open>import pdfplumber\<close> succeeds\<close>
  pdfplumber_open :: "string \<Rightarrow> exc + pdf_file"
  import_pdf2image :: bool
    \<comment> \<open>whether \<open>from pdf2image import convert_from_path; import pytesseract\<close> succeeds\<close>
  convert_from_path :: "string \<Rightarrow> exc + image list"
  image_to_string :: "image \<Rightarrow> exc + string"
  import_PIL :: bool
    \<comment> \<open>whether \<open>from PIL import Image; import pytesseract\<close> succeeds\<close>
  Image_open :: "string \<Rightarrow> exc + image"
  image_to_data :: "image \<Rightarrow> exc + string list"
    \<comment> \<open>\<open>str(c)\<close> for every \<open>c\<close> of the \<open>conf\<close> column, or the exception raised on the way\<close>
  read_utf8 :: "string \<Rightarrow> exc + string"
    \<comment> \<open>\<open>open(p, "r", encoding="utf-8").read()\<close>\<close>
  read_latin1 :: "string \<Rightarrow> exc + string"
  csv_rows :: "string \<Rightarrow> exc + string list list"
    \<comment> \<open>\<open>[row for row in csv.reader(StringIO(content))]\<close>\<close>
  loads :: "string \<Rightarrow> exc + json"
    \<comment> \<open>\<open>json.loads\<close>: the value read, or the exception raised\<close>
  py_str :: "json \<Rightarrow> string"
    \<comment> \<open>the builtin \<open>str\<close> on a value decoded from JSON\<close>

record DocumentProcessor =
  ocr_enabled :: bool
  ocr_language :: string

definition exc_str :: "exc \<Rightarrow> string" where
  \<comment> \<open>\<open>str(e)\<close>: the message of an exception that carries one; the text Python gives
      for the others is not modelled\<close>
  "exc_str e =
     (case e of
        FileNotFoundError m \<Rightarrow> m
      | ImportError m \<Rightarrow> m
      | LibraryError m \<Rightarrow> m
      | KeyError k \<Rightarrow> [CHR 0x27] @ k @ [CHR 0x27]
      | _ \<Rightarrow> [])"

subsection \<open>Format detection\<close>

definition path_name :: "string \<Rightarrow> string" where
  \<comment> \<open>\<open>Path(p).name\<close> on POSIX: the last component, empty and \<open>.\<close> components dropped\<close>
  "path_name p =
     (case rev (filter (\<lambda>c. c \<noteq> [] \<and> c \<noteq> ''.'') (split_on CHR ''/'' p)) of
        [] \<Rightarrow> []
      | n # _ \<Rightarrow> n)"

definition rfind_dot :: "string \<Rightarrow> nat option" where
  \<comment> \<open>\<open>name.rfind('.')\<close>, \<open>None\<close> for -1\<close>
  "rfind_dot name =
     (let t = dropWhile (\<lambda>c. c \<noteq> CHR ''.'') (rev name)
      in if t = [] then None else Some (length t - 1))"

definition path_suffix :: "string \<Rightarrow> string" where
  \<comment> \<open>\<open>Path(p).suffix\<close>: from the last dot of the name, unless it is first or last\<close>
  "path_suffix p =
     (let name = path_name p
      in case rfind_dot name of
           None \<Rightarrow> []
         | Some i \<Rightarrow> if 0 < i \<and> i < length name - 1 then drop i name else [])"

definition lower_char :: "char \<Rightarrow> char" where
  "lower_char c =
     (let n = (of_char c :: nat)
      in if (65 \<le> n \<and> n \<le> 90) \<or> (192 \<le> n \<and> n \<le> 222 \<and> n \<noteq> 215) then char_of (n + 32) else c)"

definition lower :: "string \<Rightarrow> string" where
  "lower s = map lower_char s"

definition type_map :: "(string \<times> string) list" where
  "type_map =
     [(''.pdf'', ''pdf''),
      (''.png'', ''png''), (''.jpg'', ''jpg''), (''.jpeg'', ''jpeg''),
      (''.tiff'', ''tiff''), (''.tif'', ''tiff''), (''.bmp'', ''bmp''),
      (''.txt'', ''txt''), (''.text'', ''txt''),
      (''.json'', ''json''), (''.csv'', ''csv''),
      (''.html'', ''html''), (''.htm'', ''html''),
      (''.md'', ''markdown''), (''.markdown'', ''markdown'')]"

definition detect_file_type :: "string \<Rightarrow> string" where
  \<comment> \<open>\<open>_detect_file_type\<close>\<close>
  "detect_file_type fp = (let ext = lower (path_suffix fp) in dict_get type_map ext ''txt'')"

subsection \<open>PDF\<close>

definition clean_table :: "string option list list \<Rightarrow> string list list" where
  \<comment> \<open>\<open>[[str(cell).strip() if cell else "" for cell in row] for row in table]\<close>\<close>
  "clean_table table =
     map (map (\<lambda>cell. case cell of None \<Rightarrow> [] | Some c \<Rightarrow> if c = [] then [] else strip c)) table"

definition page_header :: "nat \<Rightarrow> string \<Rightarrow> string" where
  \<comment> \<open>\<open>"\n--- Page {i+1} ---\n"\<close>, with the tag of the OCR path\<close>
  "page_header i tag = [CHR 0x0A] @ ''--- Page '' @ str_nat (i + 1) @ tag @ '' ---'' @ [CHR 0x0A]"

text \<open>
  The loop over the pages of an opened PDF (lines 104-114). The state is the three locals
  \<open>pages\<close>, \<open>tables\<close>, \<open>all_text\<close>; an exception leaves them as they were when it was
  raised, and the handler of line 121 goes on from there.
\<close>

fun pdf_page_loop ::
  "nat \<Rightarrow> pdf_page list \<Rightarrow> string list \<times> string list list list \<times> string
     \<Rightarrow> exc option \<times> string list \<times> string list list list \<times> string" where
  "pdf_page_loop i [] st = (None, st)"
| "pdf_page_loop i (page # rest) (pgs, tbls, all_text) =
     (case extract_text page of
        Inl e \<Rightarrow> (Some e, pgs, tbls, all_text)
      | Inr t \<Rightarrow>
         (let page_text = (case t of None \<Rightarrow> [] | Some x \<Rightarrow> x);
              pgs' = pgs @ [page_text];
              all_text' = all_text @ page_header i [] @ page_text
          in case extract_tables page of
               Inl e \<Rightarrow> (Some e, pgs', tbls, all_text')
             | Inr page_tables \<Rightarrow>
                 pdf_page_loop (i + 1) rest
                   (pgs', tbls @ map clean_table (filter (\<lambda>t. t \<noteq> []) page_tables), all_text')))"

fun ocr_loop :: "environment \<Rightarrow> nat \<Rightarrow> image list \<Rightarrow> string \<times> string list \<Rightarrow> exc + string \<times> string list" where
  "ocr_loop env i [] st = Inr st"
| "ocr_loop env i (img # rest) (all_text, pgs) =
     (case image_to_string env img of
        Inl e \<Rightarrow> Inl e
      | Inr page_text \<Rightarrow>
          ocr_loop env (i + 1) rest (all_text @ page_header i '' (OCR)'' @ page_text, pgs @ [page_text]))"

definition ocr_pdf :: "environment \<Rightarrow> string \<Rightarrow> exc + string \<times> string list" where
  \<comment> \<open>\<open>_ocr_pdf\<close>\<close>
  "ocr_pdf env fp =
     (if \<not> import_pdf2image env then Inr ([], [])
      else case convert_from_path env fp of
             Inl e \<Rightarrow> Inl e
           | Inr imgs \<Rightarrow> ocr_loop env 0 imgs ([], []))"

definition pdf_handler ::
  "DocumentProcessor \<Rightarrow> environment \<Rightarrow> string \<Rightarrow> exc
     \<Rightarrow> string list \<times> string list list list \<times> string \<times> (string \<times> meta) list
     \<Rightarrow> string list \<times> string list list list \<times> string \<times> (string \<times> meta) list" where
  \<comment> \<open>lines 121-128: \<open>except Exception as e\<close>\<close>
  "pdf_handler dp env fp e st =
     (case st of (pgs, tbls, all_text, md) \<Rightarrow>
        (let md1 = dict_set md ''error'' (MStr (exc_str e))
         in if ocr_enabled dp then
              (case ocr_pdf env fp of
                 Inr (t, ps) \<Rightarrow> (ps, tbls, t, dict_set md1 ''ocr_used'' (MBool True))
               | Inl _ \<Rightarrow> (pgs, tbls, all_text, md1))
            else (pgs, tbls, all_text, md1)))"

definition pdf_body ::
  "DocumentProcessor \<Rightarrow> environment \<Rightarrow> string
     \<Rightarrow> string list \<times> string list list list \<times> string \<times> (string \<times> meta) list" where
  \<comment> \<open>lines 92-128: the locals \<open>pages\<close>, \<open>tables\<close>, \<open>all_text\<close>, \<open>metadata\<close> after the try statement\<close>
  "pdf_body dp env fp =
     (case pdfplumber_open env fp of
        Inl e \<Rightarrow> pdf_handler dp env fp e ([], [], [], [])
      | Inr pdf \<Rightarrow>
         (let md = [(''page_count'', MInt (int (length (pdf_pages pdf)))),
                    (''pdf_info'', MInfo (case pdf_metadata pdf of None \<Rightarrow> [] | Some i \<Rightarrow> i))]
          in case pdf_page_loop 0 (pdf_pages pdf) ([], [], []) of
               (Some e, pgs, tbls, all_text) \<Rightarrow> pdf_handler dp env fp e (pgs, tbls, all_text, md)
             | (None, pgs, tbls, all_text) \<Rightarrow>
                 if strip all_text = [] \<and> ocr_enabled dp then
                   (case ocr_pdf env fp of
                      Inl e \<Rightarrow> pdf_handler dp env fp e (pgs, tbls, all_text, md)
                    | Inr (t, ps) \<Rightarrow> (ps, tbls, t, dict_set md ''ocr_used'' (MBool True)))
                 else (pgs, tbls, all_text, md)))"

definition process_pdf :: "DocumentProcessor \<Rightarrow> environment \<Rightarrow> string \<Rightarrow> exc + ExtractedDocument" where
  \<comment> \<open>\<open>_process_pdf\<close>\<close>
  "process_pdf dp env fp =
     (if \<not> import_pdfplumber env then Inl (ImportError ''pdfplumber required: pip install pdfplumber'')
      else case pdf_body dp env fp of (pgs, tbls, all_text, md) \<Rightarrow>
        Inr \<lparr>file_path = fp, file_type = ''pdf'', raw_text = strip all_text, pages = pgs,
             tables = tbls, images = [], metadata = md,
             extraction_method =
               (if map_of md ''ocr_used'' = Some (MBool True) then ''ocr'' else ''pdfplumber'')\<rparr>)"

subsection \<open>Images\<close>

definition isdigit :: "string \<Rightarrow> bool" where
  \<comment> \<open>\<open>s.isdigit()\<close>: below code point 256 the digits are 0-9 and the superscripts 1, 2, 3\<close>
  "isdigit s =
     (s \<noteq> [] \<and> list_all (\<lambda>c. is_digit c \<or> (of_char c :: nat) \<in> set [178, 179, 185]) s)"

definition py_int :: "string \<Rightarrow> nat option" where
  \<comment> \<open>\<open>int(s)\<close> for a string that passed \<open>isdigit\<close>; \<open>None\<close> is the ValueError raised for
      a superscript digit\<close>
  "py_int s = (if list_all is_digit s then Some (nat_of_digits s) else None)"

definition average_confidence :: "string list \<Rightarrow> meta" where
  \<comment> \<open>lines 181-184: an exception while collecting the confidences gives 0\<close>
  "average_confidence conf =
     (let candidates = filter isdigit conf
      in if list_all (\<lambda>c. py_int c \<noteq> None) candidates then
           (let confidences = filter (\<lambda>n. 0 < n) (map nat_of_digits candidates)
            in if confidences = [] then MInt 0
               else MAverage (sum_list confidences) (length confidences))
         else MInt 0)"

definition process_image :: "DocumentProcessor \<Rightarrow> environment \<Rightarrow> string \<Rightarrow> exc + ExtractedDocument" where
  \<comment> \<open>\<open>_process_image\<close>\<close>
  "process_image dp env fp =
     (if \<not> ocr_enabled dp then
        Inr ((new_document fp (detect_file_type fp) [])\<lparr>metadata := [(''error'', MStr ''OCR disabled'')]\<rparr>)
      else if \<not> import_PIL env then
        Inl (ImportError ''Pillow and pytesseract required for image processing'')
      else case Image_open env fp of
             Inl e \<Rightarrow> Inl e
           | Inr img \<Rightarrow>
              (case image_to_string env img of
                 Inl e \<Rightarrow> Inl e
               | Inr txt \<Rightarrow>
                  (let avg_confidence =
                         (case image_to_data env img of
                            Inl _ \<Rightarrow> MInt 0
                          | Inr conf \<Rightarrow> average_confidence conf)
                   in Inr \<lparr>file_path = fp, file_type = detect_file_type fp, raw_text = strip txt,
                           pages = [txt], tables = [], images = [],
                           metadata = [(''image_size'', MSize (fst (image_size img)) (snd (image_size img))),
                                       (''image_mode'', MStr (image_mode img)),
                                       (''ocr_confidence'', avg_confidence)],
                           extraction_method = ''ocr''\<rparr>)))"

subsection \<open>Text, CSV and JSON\<close>

fun row_cells :: "(json \<Rightarrow> string) \<Rightarrow> json \<Rightarrow> string list \<Rightarrow> exc + string list" where
  \<comment> \<open>\<open>[str(row.get(h, "")) for h in headers]\<close>: \<open>row.get\<close> exists on a dict only\<close>
  "row_cells str_of row [] = Inr []"
| "row_cells str_of row (h # hs) =
     (case row of
        JObj kv \<Rightarrow>
          (case row_cells str_of row hs of
             Inl e \<Rightarrow> Inl e
           | Inr cells \<Rightarrow> Inr (str_of (dict_get kv h (JStr [])) # cells))
      | _ \<Rightarrow> Inl AttributeError)"

fun table_rows :: "(json \<Rightarrow> string) \<Rightarrow> string list \<Rightarrow> json list \<Rightarrow> exc + string list list" where
  \<comment> \<open>\<open>[[...] for row in data]\<close>\<close>
  "table_rows str_of headers [] = Inr []"
| "table_rows str_of headers (row # rest) =
     (case row_cells str_of row headers of
        Inl e \<Rightarrow> Inl e
      | Inr cells \<Rightarrow>
         (case table_rows str_of headers rest of
            Inl e \<Rightarrow> Inl e
          | Inr rows \<Rightarrow> Inr (cells # rows)))"

definition json_tables :: "environment \<Rightarrow> string \<Rightarrow> string list list list" where
  \<comment> \<open>lines 220-229: any exception inside the try leaves \<open>tables\<close> empty\<close>
  "json_tables env content =
     (case loads env content of
        Inl _ \<Rightarrow> []
      | Inr (JArr (JObj first # rest)) \<Rightarrow>
          (let headers = dict_keys first
           in case table_rows (py_str env) headers (JObj first # rest) of
                Inl _ \<Rightarrow> []
              | Inr rows \<Rightarrow> [headers # rows])
      | Inr _ \<Rightarrow> [])"

definition read_content :: "environment \<Rightarrow> string \<Rightarrow> exc + string" where
  \<comment> \<open>lines 203-208: UTF-8, then Latin-1 on UnicodeDecodeError only\<close>
  "read_content env fp =
     (case read_utf8 env fp of
        Inr content \<Rightarrow> Inr content
      | Inl UnicodeDecodeError \<Rightarrow> read_latin1 env fp
      | Inl e \<Rightarrow> Inl e)"

definition process_text :: "environment \<Rightarrow> string \<Rightarrow> exc + ExtractedDocument" where
  \<comment> \<open>\<open>_process_text\<close>\<close>
  "process_text env fp =
     (let ft = detect_file_type fp
      in case read_content env fp of
           Inl e \<Rightarrow> Inl e
         | Inr content \<Rightarrow>
            (case (if ft = ''csv'' then
                     (case csv_rows env content of Inl e \<Rightarrow> Inl e | Inr rows \<Rightarrow> Inr [rows])
                   else if ft = ''json'' then Inr (json_tables env content)
                   else Inr []) of
               Inl e \<Rightarrow> Inl e
             | Inr tbls \<Rightarrow>
                 Inr \<lparr>file_path = fp, file_type = ft, raw_text = strip content, pages = [content],
                      tables = tbls, images = [],
                      metadata = [(''char_count'', MInt (int (length content))),
                                  (''line_count'', MInt (int (count_list content (CHR 0x0A)) + 1))],
                      extraction_method = ''text''\<rparr>))"

subsection \<open>The entry point\<close>

definition process :: "DocumentProcessor \<Rightarrow> environment \<Rightarrow> string \<Rightarrow> exc + ExtractedDocument" where
  \<comment> \<open>\<open>DocumentProcessor.process\<close>\<close>
  "process dp env p =
     (let fp = resolve env p
      in if \<not> path_exists env fp then Inl (FileNotFoundError (''Document not found: '' @ fp))
         else let ft = detect_file_type fp
              in if ft = ''pdf'' then process_pdf dp env fp
                 else if ft \<in> set [''png'', ''jpg'', ''jpeg'', ''tiff'', ''bmp''] then process_image dp env fp
                 else process_text env fp)"

section \<open>The model client and the tools (llm_client.py, tools.py)\<close>

text \<open>
  A call to the language model. Every prompt of the program is a fixed template filled
  with a few values; a request keeps the tool that built the prompt and the values put
  into it (the document text cut to its budget included), and the system prompt and
  the schema are fixed by the tool.
\<close>

datatype request =
    ExtractFields string "string list list list"
      \<comment> \<open>\<open>raw_text[:8000]\<close>, \<open>tables[:3]\<close>\<close>
  | AnswerQuestion string string json
      \<comment> \<open>the question, \<open>raw_text[:8000]\<close>, the fields given as context\<close>
  | SummarizeDocument string string json
      \<comment> \<open>the style instruction, \<open>raw_text[:8000]\<close>, the fields given as context\<close>
  | AnalyzeDocuments nat string "(string \<times> json \<times> string) list"
      \<comment> \<open>\<open>len(documents)\<close>, the question, and per document: file name, fields, \<open>raw_text[:1000]\<close>\<close>
  | AnalyzeTask string "string option" nat
      \<comment> \<open>the task, the question, the number of documents\<close>

text \<open>
  \<open>ClaudeClient.generate\<close>: the answer of the service to a request, which may depend on
  every call made before, or the exception of the transport.
\<close>

type_synonym llm = "request list \<Rightarrow> request \<Rightarrow> exc + string"

definition generate_structured ::
  "llm \<Rightarrow> (string \<Rightarrow> exc + json) \<Rightarrow> request \<Rightarrow> request list \<Rightarrow> (exc + json) \<times> request list" where
  \<comment> \<open>\<open>ClaudeClient.generate_structured\<close>; the second component is the history of calls made\<close>
  "generate_structured gen lds req history =
     (case gen history req of
        Inl e \<Rightarrow> (Inl e, history @ [req])
      | Inr raw \<Rightarrow> (decode_response lds raw, history @ [req]))"

record ExtractionResult =
  er_fields :: json
  er_form_type :: json
  er_confidence :: json
  er_reasoning :: json

record QAResult =
  qa_answer :: json
  qa_confidence :: json
  qa_evidence :: json
  qa_reasoning :: json

record SummaryResult =
  sr_summary :: json
  sr_key_points :: json
  sr_form_type :: json
  sr_important_values :: json

record AnalysisResult =
  ar_answer :: json
  ar_insights :: json
  ar_comparisons :: json
  ar_statistics :: json

definition result_get :: "json \<Rightarrow> string \<Rightarrow> json \<Rightarrow> exc + json" where
  \<comment> \<open>\<open>result.get(key, default)\<close> on whatever \<open>generate_structured\<close> returned\<close>
  "result_get result k dflt =
     (case result of
        JObj d \<Rightarrow> Inr (dict_get d k dflt)
      | _ \<Rightarrow> Inl AttributeError)"

definition to_ExtractionResult :: "json \<Rightarrow> exc + ExtractionResult" where
  \<comment> \<open>tools.py lines 172-177\<close>
  "to_ExtractionResult result =
     (case result_get result ''fields'' (JObj []) of Inl e \<Rightarrow> Inl e | Inr f \<Rightarrow>
      case result_get result ''form_type'' JNull of Inl e \<Rightarrow> Inl e | Inr t \<Rightarrow>
      case result_get result ''confidence'' (JFloat ''0.0'') of Inl e \<Rightarrow> Inl e | Inr c \<Rightarrow>
      case result_get result ''reasoning'' (JStr []) of Inl e \<Rightarrow> Inl e | Inr r \<Rightarrow>
        Inr \<lparr>er_fields = f, er_form_type = t, er_confidence = c, er_reasoning = r\<rparr>)"

definition to_QAResult :: "json \<Rightarrow> exc + QAResult" where
  \<comment> \<open>tools.py lines 277-282\<close>
  "to_QAResult result =
     (case result_get result ''answer'' (JStr ''Unable to determine'') of Inl e \<Rightarrow> Inl e | Inr a \<Rightarrow>
      case result_get result ''confidence'' (JFloat ''0.0'') of Inl e \<Rightarrow> Inl e | Inr c \<Rightarrow>
      case result_get result ''evidence'' (JArr []) of Inl e \<Rightarrow> Inl e | Inr ev \<Rightarrow>
      case result_get result ''reasoning'' (JStr []) of Inl e \<Rightarrow> Inl e | Inr r \<Rightarrow>
        Inr \<lparr>qa_answer = a, qa_confidence = c, qa_evidence = ev, qa_reasoning = r\<rparr>)"

definition to_SummaryResult :: "json \<Rightarrow> exc + SummaryResult" where
  \<comment> \<open>tools.py lines 384-389\<close>
  "to_SummaryResult result =
     (case result_get result ''summary'' (JStr []) of Inl e \<Rightarrow> Inl e | Inr sm \<Rightarrow>
      case result_get result ''key_points'' (JArr []) of Inl e \<Rightarrow> Inl e | Inr kp \<Rightarrow>
      case result_get result ''form_type'' (JStr ''unknown'') of Inl e \<Rightarrow> Inl e | Inr t \<Rightarrow>
      case result_get result ''important_values'' (JObj []) of Inl e \<Rightarrow> Inl e | Inr iv \<Rightarrow>
        Inr \<lparr>sr_summary = sm, sr_key_points = kp, sr_form_type = t, sr_important_values = iv\<rparr>)"

definition to_AnalysisResult :: "json \<Rightarrow> exc + AnalysisResult" where
  \<comment> \<open>tools.py lines 499-504\<close>
  "to_AnalysisResult result =
     (case result_get result ''answer'' (JStr []) of Inl e \<Rightarrow> Inl e | Inr a \<Rightarrow>
      case result_get result ''insights'' (JArr []) of Inl e \<Rightarrow> Inl e | Inr i \<Rightarrow>
      case result_get result ''comparisons'' (JObj []) of Inl e \<Rightarrow> Inl e | Inr c \<Rightarrow>
      case result_get result ''statistics'' (JObj []) of Inl e \<Rightarrow> Inl e | Inr st \<Rightarrow>
        Inr \<lparr>ar_answer = a, ar_insights = i, ar_comparisons = c, ar_statistics = st\<rparr>)"

definition run_tool ::
  "llm \<Rightarrow> (string \<Rightarrow> exc + json) \<Rightarrow> request \<Rightarrow> (json \<Rightarrow> exc + 'r) \<Rightarrow> request list
     \<Rightarrow> (exc + 'r) \<times> request list" where
  \<comment> \<open>the common shape of the four \<open>run\<close> methods: one structured call, then the typed result\<close>
  "run_tool gen lds req build history =
     (case generate_structured gen lds req history of
        (Inl e, h) \<Rightarrow> (Inl e, h)
      | (Inr result, h) \<Rightarrow> (build result, h))"

definition FieldExtractionTool_run ::
  "llm \<Rightarrow> (string \<Rightarrow> exc + json) \<Rightarrow> ExtractedDocument \<Rightarrow> request list
     \<Rightarrow> (exc + ExtractionResult) \<times> request list" where
  "FieldExtractionTool_run gen lds document history =
     run_tool gen lds (ExtractFields (take 8000 (raw_text document)) (take 3 (tables document)))
       to_ExtractionResult history"

definition QuestionAnsweringTool_run ::
  "llm \<Rightarrow> (string \<Rightarrow> exc + json) \<Rightarrow> string \<Rightarrow> ExtractedDocument \<Rightarrow> json \<Rightarrow> request list
     \<Rightarrow> (exc + QAResult) \<times> request list" where
  "QuestionAnsweringTool_run gen lds question document extracted_fields history =
     run_tool gen lds (AnswerQuestion question (take 8000 (raw_text document)) extracted_fields)
       to_QAResult history"

definition style_instruction :: "string \<Rightarrow> string" where
  \<comment> \<open>tools.py lines 343-347\<close>
  "style_instruction style =
     dict_get
       [(''brief'', ''Create a 2-3 sentence summary.''),
        (''detailed'', ''Create a comprehensive summary with all important details.''),
        (''bullet_points'', ''Create a bullet-point summary of key information.'')]
       style ''Create a detailed summary.''"

definition SummarizationTool_run ::
  "llm \<Rightarrow> (string \<Rightarrow> exc + json) \<Rightarrow> ExtractedDocument \<Rightarrow> json \<Rightarrow> string \<Rightarrow> request list
     \<Rightarrow> (exc + SummaryResult) \<times> request list" where
  "SummarizationTool_run gen lds document extracted_fields style history =
     run_tool gen lds
       (SummarizeDocument (style_instruction style) (take 8000 (raw_text document)) extracted_fields)
       to_SummaryResult history"

definition doc_summary :: "ExtractedDocument \<times> json \<Rightarrow> string \<times> json \<times> string" where
  \<comment> \<open>tools.py lines 457-461\<close>
  "doc_summary df =
     (last (split_on CHR ''/'' (file_path (fst df))), snd df, take 1000 (raw_text (fst df)))"

definition CrossDocumentAnalysisTool_run ::
  "llm \<Rightarrow> (string \<Rightarrow> exc + json) \<Rightarrow> string \<Rightarrow> ExtractedDocument list \<Rightarrow> json list \<Rightarrow> request list
     \<Rightarrow> (exc + AnalysisResult) \<times> request list" where
  "CrossDocumentAnalysisTool_run gen lds question documents extracted_fields_list history =
     run_tool gen lds
       (AnalyzeDocuments (length documents) question (map doc_summary (zip documents extracted_fields_list)))
       to_AnalysisResult history"

section \<open>The agent (agent.py)\<close>

text \<open>The creation time \<open>processed_at\<close> is read from the clock and is left out.\<close>

record ProcessedForm =
  pf_file_path :: string
  pf_file_type :: string
  pf_raw_text :: string
  pf_extracted_fields :: json
  pf_form_type :: json
  pf_extraction_confidence :: json
  pf_tables :: "string list list list"
  pf_metadata :: "(string \<times> meta) list"

text \<open>
  The attributes of \<open>IntelligentFormAgent\<close> that change or configure its behaviour.
  \<open>llm_history\<close> is the state of the client \<open>self.llm\<close>: the calls it has been sent, in
  order (what \<open>MockLLMClient.call_history\<close> records). An exception leaves the agent as it
  was when it was raised, so every method returns its outcome together with the agent.
\<close>

record agent =
  processed_forms :: "(string \<times> ProcessedForm) list"
  total_llm_calls :: nat
  verbose :: bool
  doc_processor :: DocumentProcessor
  llm_history :: "request list"

definition new_agent :: "bool \<Rightarrow> agent" where
  \<comment> \<open>\<open>__init__\<close>\<close>
  "new_agent v =
     \<lparr>processed_forms = [], total_llm_calls = 0, verbose = v,
      doc_processor = \<lparr>ocr_enabled = True, ocr_language = ''eng''\<rparr>, llm_history = []\<rparr>"

definition py_len :: "json \<Rightarrow> exc + nat" where
  \<comment> \<open>\<open>len(v)\<close>\<close>
  "py_len v =
     (case v of
        JStr s \<Rightarrow> Inr (length s)
      | JArr xs \<Rightarrow> Inr (length xs)
      | JObj d \<Rightarrow> Inr (length d)
      | _ \<Rightarrow> Inl TypeError)"

definition format_percent :: "json \<Rightarrow> exc option" where
  \<comment> \<open>the exception of \<open>f"{v:.1%}"\<close>, if any: a number is formatted (an \<open>int\<close> through
      \<open>float\<close>, which overflows from \<open>2^1024 - 2^970\<close> on), anything else is refused\<close>
  "format_percent v =
     (case v of
        JInt n \<Rightarrow> if 2 ^ 1024 - 2 ^ 970 \<le> \<bar>n\<bar> then Some OverflowError else None
      | JFloat _ \<Rightarrow> None
      | JBool _ \<Rightarrow> None
      | JStr _ \<Rightarrow> Some ValueError
      | _ \<Rightarrow> Some TypeError)"

definition log_extraction :: "ExtractionResult \<Rightarrow> exc option" where
  \<comment> \<open>agent.py lines 183-185: the message is built whether or not it is printed\<close>
  "log_extraction r =
     (case py_len (er_fields r) of
        Inl e \<Rightarrow> Some e
      | Inr _ \<Rightarrow> format_percent (er_confidence r))"

definition make_form :: "string \<Rightarrow> ExtractedDocument \<Rightarrow> ExtractionResult \<Rightarrow> ProcessedForm" where
  \<comment> \<open>agent.py lines 188-200\<close>
  "make_form fp extracted r =
     \<lparr>pf_file_path = fp, pf_file_type = file_type extracted, pf_raw_text = raw_text extracted,
      pf_extracted_fields = er_fields r, pf_form_type = er_form_type r,
      pf_extraction_confidence = er_confidence r, pf_tables = tables extracted,
      pf_metadata = dict_set (metadata extracted) ''extraction_reasoning'' (MJson (er_reasoning r))\<rparr>"

definition process_form ::
  "llm \<Rightarrow> environment \<Rightarrow> string \<Rightarrow> bool \<Rightarrow> agent \<Rightarrow> (exc + ProcessedForm) \<times> agent" where
  "process_form gen env fp force_reprocess ag =
     (case (if force_reprocess then None else map_of (processed_forms ag) fp) of
        Some form \<Rightarrow> (Inr form, ag)
      | None \<Rightarrow>
         (case process (doc_processor ag) env fp of
            Inl e \<Rightarrow> (Inl e, ag)
          | Inr extracted \<Rightarrow>
             (case FieldExtractionTool_run gen (loads env) extracted (llm_history ag) of
                (Inl e, h) \<Rightarrow> (Inl e, ag\<lparr>llm_history := h\<rparr>)
              | (Inr r, h) \<Rightarrow>
                 (let ag1 = ag\<lparr>llm_history := h, total_llm_calls := total_llm_calls ag + 1\<rparr>
                  in case log_extraction r of
                       Some e \<Rightarrow> (Inl e, ag1)
                     | None \<Rightarrow>
                        (let form = make_form fp extracted r
                         in (Inr form,
                             ag1\<lparr>processed_forms := dict_set (processed_forms ag1) fp form\<rparr>))))))"

fun process_forms ::
  "llm \<Rightarrow> environment \<Rightarrow> string list \<Rightarrow> agent \<Rightarrow> (exc + ProcessedForm list) \<times> agent" where
  "process_forms gen env [] ag = (Inr [], ag)"
| "process_forms gen env (p # ps) ag =
     (case process_form gen env p False ag of
        (Inl e, ag1) \<Rightarrow> (Inl e, ag1)
      | (Inr f, ag1) \<Rightarrow>
         (case process_forms gen env ps ag1 of
            (Inl e, ag2) \<Rightarrow> (Inl e, ag2)
          | (Inr fs, ag2) \<Rightarrow> (Inr (f # fs), ag2)))"

definition form_document :: "ProcessedForm \<Rightarrow> ExtractedDocument" where
  \<comment> \<open>the \<open>ExtractedDocument\<close> rebuilt from a form in \<open>ask\<close>, \<open>summarize\<close> and \<open>analyze\<close>\<close>
  "form_document form =
     (new_document (pf_file_path form) (pf_file_type form) (pf_raw_text form))
       \<lparr>tables := pf_tables form, metadata := pf_metadata form\<rparr>"

definition ask ::
  "llm \<Rightarrow> environment \<Rightarrow> string \<Rightarrow> ProcessedForm \<Rightarrow> agent \<Rightarrow> (exc + QAResult) \<times> agent" where
  "ask gen env question form ag =
     (case QuestionAnsweringTool_run gen (loads env) question (form_document form)
             (pf_extracted_fields form) (llm_history ag) of
        (Inl e, h) \<Rightarrow> (Inl e, ag\<lparr>llm_history := h\<rparr>)
      | (Inr r, h) \<Rightarrow>
         (let ag1 = ag\<lparr>llm_history := h, total_llm_calls := total_llm_calls ag + 1\<rparr>
          in case format_percent (qa_confidence r) of
               Some e \<Rightarrow> (Inl e, ag1)
             | None \<Rightarrow> (Inr r, ag1)))"

definition summarize ::
  "llm \<Rightarrow> environment \<Rightarrow> ProcessedForm \<Rightarrow> string \<Rightarrow> agent \<Rightarrow> (exc + SummaryResult) \<times> agent" where
  "summarize gen env form style ag =
     (case SummarizationTool_run gen (loads env) (form_document form) (pf_extracted_fields form)
             style (llm_history ag) of
        (Inl e, h) \<Rightarrow> (Inl e, ag\<lparr>llm_history := h\<rparr>)
      | (Inr r, h) \<Rightarrow> (Inr r, ag\<lparr>llm_history := h, total_llm_calls := total_llm_calls ag + 1\<rparr>))"

definition analyze ::
  "llm \<Rightarrow> environment \<Rightarrow> string \<Rightarrow> ProcessedForm list \<Rightarrow> agent \<Rightarrow> (exc + AnalysisResult) \<times> agent" where
  "analyze gen env question forms ag =
     (case CrossDocumentAnalysisTool_run gen (loads env) question (map form_document forms)
             (map pf_extracted_fields forms) (llm_history ag) of
        (Inl e, h) \<Rightarrow> (Inl e, ag\<lparr>llm_history := h\<rparr>)
      | (Inr r, h) \<Rightarrow> (Inr r, ag\<lparr>llm_history := h, total_llm_calls := total_llm_calls ag + 1\<rparr>))"

definition ask_multiple ::
  "llm \<Rightarrow> environment \<Rightarrow> string \<Rightarrow> ProcessedForm list \<Rightarrow> agent \<Rightarrow> (exc + AnalysisResult) \<times> agent" where
  "ask_multiple gen env question forms ag = analyze gen env question forms ag"

fun summarize_all ::
  "llm \<Rightarrow> environment \<Rightarrow> ProcessedForm list \<Rightarrow> agent \<Rightarrow> (exc + SummaryResult list) \<times> agent" where
  \<comment> \<open>\<open>[self.summarize(f) for f in forms]\<close>\<close>
  "summarize_all gen env [] ag = (Inr [], ag)"
| "summarize_all gen env (f # fs) ag =
     (case summarize gen env f ''detailed'' ag of
        (Inl e, ag1) \<Rightarrow> (Inl e, ag1)
      | (Inr r, ag1) \<Rightarrow>
         (case summarize_all gen env fs ag1 of
            (Inl e, ag2) \<Rightarrow> (Inl e, ag2)
          | (Inr rs, ag2) \<Rightarrow> (Inr (r # rs), ag2)))"

definition analyze_task ::
  "llm \<Rightarrow> environment \<Rightarrow> string \<Rightarrow> string option \<Rightarrow> nat \<Rightarrow> agent \<Rightarrow> (exc + json) \<times> agent" where
  \<comment> \<open>\<open>_analyze_task\<close>\<close>
  "analyze_task gen env task question num_docs ag =
     (case generate_structured gen (loads env) (AnalyzeTask task question num_docs) (llm_history ag) of
        (Inl e, h) \<Rightarrow> (Inl e, ag\<lparr>llm_history := h\<rparr>)
      | (Inr result, h) \<Rightarrow>
          (Inr result, ag\<lparr>llm_history := h, total_llm_calls := total_llm_calls ag + 1\<rparr>))"

definition subscript :: "json \<Rightarrow> string \<Rightarrow> exc + json" where
  \<comment> \<open>\<open>v[key]\<close> with a string key\<close>
  "subscript v k =
     (case v of
        JObj d \<Rightarrow> (case map_of d k of None \<Rightarrow> Inl (KeyError k) | Some x \<Rightarrow> Inr x)
      | _ \<Rightarrow> Inl TypeError)"

definition question_or_task :: "string option \<Rightarrow> string \<Rightarrow> string" where
  \<comment> \<open>\<open>question or task\<close>\<close>
  "question_or_task question task =
     (case question of None \<Rightarrow> task | Some q \<Rightarrow> if q = [] then task else q)"

datatype workflow_result =
    Extraction string "ProcessedForm list"
  | Qa string json json json json
      \<comment> \<open>task, answer, confidence, evidence, insights\<close>
  | Summarization string "(string \<times> json \<times> json) list"
  | Analysis string json json json json
      \<comment> \<open>task, answer, insights, statistics, comparisons\<close>
  | General string "ProcessedForm list" "json list"

definition run_workflow ::
  "llm \<Rightarrow> environment \<Rightarrow> string \<Rightarrow> string list \<Rightarrow> string option \<Rightarrow> agent
     \<Rightarrow> (exc + workflow_result) \<times> agent" where
  "run_workflow gen env task file_paths question ag =
     (case process_forms gen env file_paths ag of
        (Inl e, ag1) \<Rightarrow> (Inl e, ag1)
      | (Inr forms, ag1) \<Rightarrow>
     (case analyze_task gen env task question (length forms) ag1 of
        (Inl e, ag2) \<Rightarrow> (Inl e, ag2)
      | (Inr task_analysis, ag2) \<Rightarrow>
     (case subscript task_analysis ''task_type'' of
        Inl e \<Rightarrow> (Inl e, ag2)
      | Inr task_type \<Rightarrow>
         if task_type = JStr ''extract'' then (Inr (Extraction task forms), ag2)
         else if task_type = JStr ''qa'' then
           (if length forms = 1 then
              (case ask gen env (question_or_task question task) (hd forms) ag2 of
                 (Inl e, ag3) \<Rightarrow> (Inl e, ag3)
               | (Inr r, ag3) \<Rightarrow>
                   (Inr (Qa task (qa_answer r) (qa_confidence r) (qa_evidence r) (JArr [])), ag3))
            else
              (case ask_multiple gen env (question_or_task question task) forms ag2 of
                 (Inl e, ag3) \<Rightarrow> (Inl e, ag3)
               | (Inr r, ag3) \<Rightarrow>
                   (Inr (Qa task (ar_answer r) JNull (JArr []) (ar_insights r)), ag3)))
         else if task_type = JStr ''summarize'' then
           (case summarize_all gen env forms ag2 of
              (Inl e, ag3) \<Rightarrow> (Inl e, ag3)
            | (Inr summaries, ag3) \<Rightarrow>
                (Inr (Summarization task
                        (map (\<lambda>(f, sm). (pf_file_path f, sr_summary sm, sr_key_points sm))
                             (zip forms summaries))), ag3))
         else if task_type = JStr ''analyze'' then
           (case analyze gen env (question_or_task question task) forms ag2 of
              (Inl e, ag3) \<Rightarrow> (Inl e, ag3)
            | (Inr r, ag3) \<Rightarrow>
                (Inr (Analysis task (ar_answer r) (ar_insights r) (ar_statistics r) (ar_comparisons r)), ag3))
         else
           (case summarize_all gen env forms ag2 of
              (Inl e, ag3) \<Rightarrow> (Inl e, ag3)
            | (Inr summaries, ag3) \<Rightarrow> (Inr (General task forms (map sr_summary summaries)), ag3)))))"

record agent_stats =
  stats_total_llm_calls :: nat
  stats_cached_forms :: nat
  stats_cached_form_paths :: "string list"

definition get_stats :: "agent \<Rightarrow> agent_stats" where
  "get_stats ag =
     \<lparr>stats_total_llm_calls = total_llm_calls ag,
      stats_cached_forms = length (processed_forms ag),
      stats_cached_form_paths = dict_keys (processed_forms ag)\<rparr>"

definition clear_cache :: "agent \<Rightarrow> agent" where
  "clear_cache ag = ag\<lparr>processed_forms := []\<rparr>"

section \<open>A concrete environment\<close>

text \<open>
  The builtin \<open>str\<close> on values decoded from JSON, for the concrete runs below: \<open>str\<close> of
  a string is the string, of anything else its \<open>repr\<close>. A float is printed as the text
  it was read from, which is Python's output when that text is already the shortest
  form (as \<open>0.9\<close> or \<open>2.5\<close>).
\<close>

definition hex_digit :: "nat \<Rightarrow> char" where
  "hex_digit d = (if d < 10 then char_of (48 + d) else char_of (87 + d))"

definition repr_char :: "char \<Rightarrow> char \<Rightarrow> string" where
  "repr_char quote c =
     (let n = (of_char c :: nat)
      in if c = CHR 0x5C then [CHR 0x5C, CHR 0x5C]
         else if c = quote then [CHR 0x5C, quote]
         else if c = CHR 0x09 then [CHR 0x5C, CHR ''t'']
         else if c = CHR 0x0A then [CHR 0x5C, CHR ''n'']
         else if c = CHR 0x0D then [CHR 0x5C, CHR ''r'']
         else if n < 32 \<or> (127 \<le> n \<and> n \<le> 160) \<or> n = 173
           then [CHR 0x5C, CHR ''x'', hex_digit (n div 16), hex_digit (n mod 16)]
         else [c])"

definition repr_str :: "string \<Rightarrow> string" where
  "repr_str s =
     (let quote = (if CHR 0x27 \<in> set s \<and> CHR 0x22 \<notin> set s then CHR 0x22 else CHR 0x27)
      in quote # concat (map (repr_char quote) s) @ [quote])"

fun join_str :: "string \<Rightarrow> string list \<Rightarrow> string" where
  "join_str sep [] = []"
| "join_str sep [w] = w"
| "join_str sep (w # ws) = w @ sep @ join_str sep ws"

definition float_str :: "string \<Rightarrow> string" where
  "float_str l =
     (if l = ''NaN'' then ''nan'' else if l = ''Infinity'' then ''inf''
      else if l = ''-Infinity'' then ''-inf'' else l)"

fun py_repr :: "json \<Rightarrow> string" where
  "py_repr JNull = ''None''"
| "py_repr (JBool b) = (if b then ''True'' else ''False'')"
| "py_repr (JInt n) = str_int n"
| "py_repr (JFloat l) = float_str l"
| "py_repr (JStr s) = repr_str s"
| "py_repr (JArr xs) = ''['' @ join_str '', '' (map py_repr xs) @ '']''"
| "py_repr (JObj d) = ''{'' @ join_str '', '' (map (\<lambda>kv. repr_str (fst kv) @ '': '' @ py_repr (snd kv)) d) @ ''}''"

definition py_str_json :: "json \<Rightarrow> string" where
  "py_str_json v = (case v of JStr s \<Rightarrow> s | _ \<Rightarrow> py_repr v)"


text \<open>
  A small file system, seen from the working directory \<open>/forms\<close>: a text file, a JSON
  file, a PDF that the PDF library cannot parse, and a scanned image. Every library is
  installed; \<open>demo_env_no_pdfplumber\<close> is the same machine without pdfplumber.
\<close>

definition demo_resolve :: "string \<Rightarrow> string" where
  "demo_resolve p = (if startswith p ''/'' then p else ''/forms/'' @ p)"

definition demo_json_text :: string where
  "demo_json_text =
     [CHR ''[''] @ [CHR ''{'', CHR 0x22] @ ''name'' @ [CHR 0x22] @ '': '' @ [CHR 0x22] @ ''Alice'' @ [CHR 0x22]
       @ '', '' @ [CHR 0x22] @ ''amount'' @ [CHR 0x22] @ '': 100}, ''
       @ [CHR ''{'', CHR 0x22] @ ''name'' @ [CHR 0x22] @ '': '' @ [CHR 0x22] @ ''Bob'' @ [CHR 0x22]
       @ '', '' @ [CHR 0x22] @ ''amount'' @ [CHR 0x22] @ '': 200}]''"

definition demo_env :: environment where
  "demo_env =
     \<lparr>resolve = demo_resolve,
      path_exists = (\<lambda>p. p \<in> set [''/forms/w2.txt'', ''/forms/data.json'', ''/forms/scan.pdf'', ''/forms/scan.png'']),
      import_pdfplumber = True,
      pdfplumber_open = (\<lambda>p. Inl (LibraryError ''No /Root object! - Is this really a PDF?'')),
      import_pdf2image = False,
      convert_from_path = (\<lambda>p. Inr []),
      image_to_string = (\<lambda>i. Inr ''Name: John''),
      import_PIL = True,
      Image_open = (\<lambda>p. Inr \<lparr>image_size = (800, 600), image_mode = ''RGB'', image_id = 0\<rparr>),
      image_to_data = (\<lambda>i. Inr [''-1'', ''96'', ''90'']),
      read_utf8 = (\<lambda>p. if p = ''/forms/data.json'' then Inr demo_json_text else Inr ''Name: John''),
      read_latin1 = (\<lambda>p. Inr ''Name: John''),
      csv_rows = (\<lambda>c. Inr [[c]]),
      loads = json_loads,
      py_str = py_str_json\<rparr>"


definition default_processor :: DocumentProcessor where
  \<comment> \<open>\<open>DocumentProcessor()\<close>\<close>
  "default_processor = \<lparr>ocr_enabled = True, ocr_language = ''eng''\<rparr>"

text \<open>
  A model service with a fixed answer per tool, a service that answers a field
  extraction in prose, and the number of field-extraction calls among the calls made.
\<close>

definition demo_llm :: llm where
  \<open>demo_llm history req =
     (case req of
        ExtractFields _ _ \<Rightarrow> Inr ''{"fields": {"Name": "John"}, "form_type": "W-2", "confidence": 0.9}''
      | AnswerQuestion _ _ _ \<Rightarrow> Inr ''{"answer": "John", "confidence": 0.9}''
      | SummarizeDocument _ _ _ \<Rightarrow> Inr ''{"summary": "A wage statement"}''
      | AnalyzeDocuments _ _ _ \<Rightarrow> Inr ''{"answer": "No documents", "insights": []}''
      | AnalyzeTask _ _ _ \<Rightarrow> Inr ''{"task_type": "qa"}'')\<close>


definition is_field_extraction :: "request \<Rightarrow> bool" where
  "is_field_extraction req = (case req of ExtractFields _ _ \<Rightarrow> True | _ \<Rightarrow> False)"

definition field_extraction_calls :: "agent \<Rightarrow> nat" where
  "field_extraction_calls ag = length (filter is_field_extraction (llm_history ag))"

section \<open>Properties\<close>

subsection \<open>Format detection\<close>

lemma process_file_type:
  "process dp env p = Inr doc \<Longrightarrow> file_type doc = detect_file_type (resolve env p)"
  unfolding process_def process_pdf_def process_image_def process_text_def new_document_def Let_def
  by (auto split: if_splits sum.splits prod.splits)

text \<open>
  C8. The format tag is a function of the lower-cased extension of the path alone: two
  paths with the same extension get the same tag; the table lists the fifteen recognised
  extensions, each once, so an extension has one tag; an extension outside the table
  gives \<open>txt\<close>; and the document that ingestion returns carries the tag of its resolved
  path, whatever the file holds.
\<close>

theorem detect_file_type_by_extension:
  "(lower (path_suffix p) = lower (path_suffix q) \<longrightarrow> detect_file_type p = detect_file_type q)
   \<and> map fst type_map =
       [''.pdf'', ''.png'', ''.jpg'', ''.jpeg'', ''.tiff'', ''.tif'', ''.bmp'', ''.txt'', ''.text'',
        ''.json'', ''.csv'', ''.html'', ''.htm'', ''.md'', ''.markdown'']
   \<and> distinct (map fst type_map)
   \<and> ((lower (path_suffix p), t) \<in> set type_map \<longrightarrow> detect_file_type p = t)
   \<and> (lower (path_suffix p) \<notin> set (map fst type_map) \<longrightarrow> detect_file_type p = ''txt'')
   \<and> (process dp env p = Inr doc \<longrightarrow> file_type doc = detect_file_type (resolve env p))"
proof -
  have d: "distinct (map fst type_map)"
    by (simp add: type_map_def)
  have a: "(lower (path_suffix p), t) \<in> set type_map \<longrightarrow> detect_file_type p = t"
    using d by (simp add: detect_file_type_def dict_get_def)
  have b: "lower (path_suffix p) \<notin> set (map fst type_map) \<longrightarrow> detect_file_type p = ''txt''"
    by (auto simp: detect_file_type_def dict_get_def map_of_eq_None_iff [symmetric]
             simp del: map_of_eq_None_iff split: option.splits)
  have c: "lower (path_suffix p) = lower (path_suffix q) \<longrightarrow> detect_file_type p = detect_file_type q"
    by (simp add: detect_file_type_def)
  show ?thesis
    using a b c d process_file_type [of dp env p doc] by (simp add: type_map_def)
qed

theorem detect_file_type_by_extension_witness:
  "detect_file_type ''/forms/W2.PDF'' = detect_file_type ''scan.pdf''
   \<and> detect_file_type ''/forms/page.tif'' = ''tiff''
   \<and> detect_file_type ''/forms/notes.docx'' = ''txt''
   \<and> (\<exists>doc. process default_processor demo_env ''data.json'' = Inr doc \<and> file_type doc = ''json'')"
proof -
  have same: "lower (path_suffix ''/forms/W2.PDF'') = lower (path_suffix ''scan.pdf'')"
    by code_simp
  have tif: "(lower (path_suffix ''/forms/page.tif''), ''tiff'') \<in> set type_map"
    by code_simp
  have docx: "lower (path_suffix ''/forms/notes.docx'') \<notin> set (map fst type_map)"
    by code_simp
  obtain doc where doc: "process default_processor demo_env ''data.json'' = Inr doc"
    by (cases "process default_processor demo_env ''data.json''") (simp_all, code_simp)
  have tag: "detect_file_type (resolve demo_env ''data.json'') = ''json''"
    by code_simp
  show ?thesis
    using same tif docx doc tag
      detect_file_type_by_extension [of "''/forms/W2.PDF''" "''scan.pdf''"]
      detect_file_type_by_extension [of "''/forms/page.tif''" _ "''tiff''"]
      detect_file_type_by_extension [of "''/forms/notes.docx''"]
      detect_file_type_by_extension [of "''data.json''" _ _ default_processor demo_env doc]
    by simp
qed

subsection \<open>Missing files\<close>



subsection \<open>Clearing the cache\<close>

text \<open>
  C9. \<open>clear_cache\<close> empties the cache, so that \<open>get_stats\<close> reports no cached form and no
  cached path; the counter of model calls, and every other attribute of the agent, stays
  as it was.
\<close>

theorem clear_cache_frame:
  "processed_forms (clear_cache ag) = []
   \<and> stats_cached_forms (get_stats (clear_cache ag)) = 0
   \<and> stats_cached_form_paths (get_stats (clear_cache ag)) = []
   \<and> total_llm_calls (clear_cache ag) = total_llm_calls ag
   \<and> stats_total_llm_calls (get_stats (clear_cache ag)) = stats_total_llm_calls (get_stats ag)
   \<and> verbose (clear_cache ag) = verbose ag
   \<and> doc_processor (clear_cache ag) = doc_processor ag
   \<and> llm_history (clear_cache ag) = llm_history ag
   \<and> clear_cache ag = ag\<lparr>processed_forms := []\<rparr>"
  by (simp add: clear_cache_def get_stats_def dict_keys_def)

subsection \<open>Tables from JSON arrays\<close>

lemma row_cells_obj:
  "row_cells f (JObj kv) hs = Inr (map (\<lambda>h. f (dict_get kv h (JStr []))) hs)"
  by (induction hs) simp_all

lemma table_rows_objs:
  "table_rows f hs (map JObj objs) = Inr (map (\<lambda>obj. map (\<lambda>h. f (dict_get obj h (JStr []))) hs) objs)"
  by (induction objs) (simp_all add: row_cells_obj)

lemma json_tables_objs:
  "loads env content = Inr (JArr (map JObj objs)) \<Longrightarrow> objs \<noteq> [] \<Longrightarrow>
     json_tables env content =
       [dict_keys (hd objs) #
        map (\<lambda>obj. map (\<lambda>h. py_str env (dict_get obj h (JStr []))) (dict_keys (hd objs))) objs]"
  using table_rows_objs [of "py_str env" "dict_keys (hd objs)" objs]
  by (cases objs) (simp_all add: json_tables_def Let_def)

lemma json_tables_bad: "loads env content = Inl e \<Longrightarrow> json_tables env content = []"
  by (simp add: json_tables_def)

text \<open>
  C6. For an existing, readable file with the extension \<open>.json\<close>: when its content parses
  as a non-empty array of objects, ingestion returns a document with exactly one table,
  whose first row is the keys of the first object in their order and whose following
  rows, one per object, hold \<open>str\<close> of each object's value under those keys, a missing
  key giving the empty string; when \<open>json.loads\<close> raises on the content, ingestion
  still returns a document, with no table.
\<close>

theorem json_array_table:
  assumes "path_exists env (resolve env p)"
    and "detect_file_type (resolve env p) = ''json''"
    and "read_content env (resolve env p) = Inr content"
  shows "(loads env content = Inr (JArr (map JObj objs)) \<and> objs \<noteq> [] \<longrightarrow>
            (\<exists>doc. process dp env p = Inr doc \<and>
               tables doc =
                 [dict_keys (hd objs) #
                  map (\<lambda>obj. map (\<lambda>h. py_str env (dict_get obj h (JStr []))) (dict_keys (hd objs))) objs]))
         \<and> (loads env content = Inl e \<longrightarrow>
              (\<exists>doc. process dp env p = Inr doc \<and> tables doc = []))"
  using assms json_tables_objs [of env content objs] json_tables_bad [of env content e]
  by (auto simp: process_def process_text_def Let_def)

theorem json_array_table_witness:
  "\<exists>doc. process default_processor demo_env ''data.json'' = Inr doc
     \<and> tables doc = [[[''name'', ''amount''], [''Alice'', ''100''], [''Bob'', ''200'']]]"
proof -
  let ?objs = "[[(''name'', JStr ''Alice''), (''amount'', JInt 100)],
                [(''name'', JStr ''Bob''), (''amount'', JInt 200)]]"
  have e: "path_exists demo_env (resolve demo_env ''data.json'')"
    by code_simp
  have t: "detect_file_type (resolve demo_env ''data.json'') = ''json''"
    by code_simp
  have r: "read_content demo_env (resolve demo_env ''data.json'') = Inr demo_json_text"
    by code_simp
  have l: "loads demo_env demo_json_text = Inr (JArr (map JObj ?objs))"
    by code_simp
  have cells:
    "map (\<lambda>obj. map (\<lambda>h. py_str demo_env (dict_get obj h (JStr []))) [''name'', ''amount'']) ?objs
       = [[''Alice'', ''100''], [''Bob'', ''200'']]"
    by code_simp
  show ?thesis
    using json_array_table [OF e t r, of ?objs default_processor] l cells
    by (simp add: dict_keys_def)
qed

subsection \<open>The cache of processed forms\<close>

lemma process_file_path: "process dp env p = Inr doc \<Longrightarrow> file_path doc = resolve env p"
  unfolding process_def process_pdf_def process_image_def process_text_def new_document_def Let_def
  by (auto split: if_splits sum.splits prod.splits)

lemma process_resolve: "resolve env p = resolve env q \<Longrightarrow> process dp env p = process dp env q"
  by (simp add: process_def)

lemma generate_structured_history:
  "snd (generate_structured gen lds req h) = h @ [req]"
  by (simp add: generate_structured_def split: sum.splits)

lemma run_tool_history: "snd (run_tool gen lds req build h) = h @ [req]"
  using generate_structured_history [of gen lds req h]
  by (cases "generate_structured gen lds req h") (auto simp: run_tool_def split: sum.splits)


lemma process_form_miss:
  assumes "process_form gen env p force ag = (Inr f, ag')"
    and "force \<or> map_of (processed_forms ag) p = None"
  shows "\<exists>doc r. process (doc_processor ag) env p = Inr doc
           \<and> f = make_form p doc r
           \<and> ag' = ag\<lparr>llm_history := llm_history ag @ [ExtractFields (take 8000 (raw_text doc)) (take 3 (tables doc))],
                       total_llm_calls := total_llm_calls ag + 1,
                       processed_forms := dict_set (processed_forms ag) p f\<rparr>"
proof -
  from assms obtain doc where doc: "process (doc_processor ag) env p = Inr doc"
    by (auto simp: process_form_def split: sum.splits option.splits if_splits)
  let ?req = "ExtractFields (take 8000 (raw_text doc)) (take 3 (tables doc))"
  obtain res h where run: "FieldExtractionTool_run gen (loads env) doc (llm_history ag) = (res, h)"
    by (cases "FieldExtractionTool_run gen (loads env) doc (llm_history ag)")
  have h: "h = llm_history ag @ [?req]"
    using run run_tool_history [of gen "loads env" ?req to_ExtractionResult "llm_history ag"]
    by (simp add: FieldExtractionTool_run_def)
  from assms doc run obtain r where r: "res = Inr r" and ok: "log_extraction r = None"
    by (auto simp: process_form_def Let_def split: sum.splits option.splits if_splits)
  from assms doc run r ok h show ?thesis
    by (auto simp: process_form_def Let_def split: if_splits)
qed

lemma map_of_dict_set: "map_of (dict_set d k v) = (map_of d)(k \<mapsto> v)"
  by (rule ext) (simp add: dict_set_def update_conv)

lemma process_form_miss_calls:
  assumes "process_form gen env p force ag = (Inr f, ag')"
    and "force \<or> map_of (processed_forms ag) p = None"
  shows "field_extraction_calls ag' = field_extraction_calls ag + 1"
    and "total_llm_calls ag' = total_llm_calls ag + 1"
    and "processed_forms ag' = dict_set (processed_forms ag) p f"
    and "pf_file_path f = p"
  using process_form_miss [OF assms]
  by (auto simp: field_extraction_calls_def is_field_extraction_def make_form_def)

lemma process_form_returns:
  assumes "force \<or> map_of (processed_forms ag) p = None"
    and "process (doc_processor ag) env p = Inr doc"
    and "gen (llm_history ag) (ExtractFields (take 8000 (raw_text doc)) (take 3 (tables doc))) = Inr raw"
    and "decode_response (loads env) raw = Inr (JObj d)"
    and "py_len (dict_get d ''fields'' (JObj [])) = Inr n"
    and "format_percent (dict_get d ''confidence'' (JFloat ''0.0'')) = None"
  shows "\<exists>f. process_form gen env p force ag =
           (Inr f,
            ag\<lparr>llm_history := llm_history ag @ [ExtractFields (take 8000 (raw_text doc)) (take 3 (tables doc))],
               total_llm_calls := total_llm_calls ag + 1,
               processed_forms := dict_set (processed_forms ag) p f\<rparr>)"
  using assms
  by (auto simp: process_form_def FieldExtractionTool_run_def run_tool_def generate_structured_def
                 to_ExtractionResult_def result_get_def log_extraction_def Let_def)


lemma demo_process_w2:
  "process default_processor demo_env ''w2.txt''
     = Inr \<lparr>file_path = ''/forms/w2.txt'', file_type = ''txt'', raw_text = ''Name: John'',
            pages = [''Name: John''], tables = [], images = [],
            metadata = [(''char_count'', MInt 10), (''line_count'', MInt 1)],
            extraction_method = ''text''\<rparr>"
  by code_simp

lemma demo_decode_extract:
  \<open>decode_response json_loads ''{"fields": {"Name": "John"}, "form_type": "W-2", "confidence": 0.9}''
     = Inr (JObj [(''fields'', JObj [(''Name'', JStr ''John'')]), (''form_type'', JStr ''W-2''),
                  (''confidence'', JFloat ''0.9'')])\<close>
  by code_simp


lemma demo_decode_task:
  \<open>decode_response json_loads ''{"task_type": "qa"}'' = Inr (JObj [(''task_type'', JStr ''qa'')])\<close>
  by code_simp

lemma demo_resolve_w2: "resolve demo_env ''w2.txt'' = ''/forms/w2.txt'' \<and> resolve demo_env ''/forms/w2.txt'' = ''/forms/w2.txt''"
  by code_simp

lemma demo_loads: "loads demo_env = json_loads"
  by (simp add: demo_env_def)

lemma new_agent_simps:
  "processed_forms (new_agent v) = []" "total_llm_calls (new_agent v) = 0"
  "llm_history (new_agent v) = []" "doc_processor (new_agent v) = default_processor"
  by (simp_all add: new_agent_def default_processor_def)

lemma demo_call:
  assumes "force \<or> map_of (processed_forms ag) p = None"
    and "resolve demo_env p = ''/forms/w2.txt''"
    and "doc_processor ag = default_processor"
  shows "\<exists>f. process_form demo_llm demo_env p force ag =
           (Inr f, ag\<lparr>llm_history := llm_history ag @ [ExtractFields ''Name: John'' []],
                      total_llm_calls := total_llm_calls ag + 1,
                      processed_forms := dict_set (processed_forms ag) p f\<rparr>)"
proof -
  have r: "resolve demo_env p = resolve demo_env ''w2.txt''"
    using assms(2) demo_resolve_w2 by simp
  have doc: "process (doc_processor ag) demo_env p
     = Inr \<lparr>file_path = ''/forms/w2.txt'', file_type = ''txt'', raw_text = ''Name: John'',
            pages = [''Name: John''], tables = [], images = [],
            metadata = [(''char_count'', MInt 10), (''line_count'', MInt 1)],
            extraction_method = ''text''\<rparr>"
    using process_resolve [OF r, of default_processor] demo_process_w2 assms(3) by simp
  show ?thesis
    using process_form_returns [OF assms(1) doc _ demo_decode_extract [folded demo_loads], of demo_llm 1]
    by (simp add: demo_llm_def dict_get_def py_len_def format_percent_def)
qed





text \<open>
  C10. The cache is keyed by the string given to \<open>process_form\<close>, while ingestion works on
  the resolved path: for two different strings that resolve to the same path, neither
  cached, two calls that return leave two cache entries, one under each string, each form
  carrying its own string; both calls ingest the same document and each sends its own
  field-extraction request, so two requests are made for one file.
\<close>

theorem process_form_keyed_by_string:
  assumes "p \<noteq> q"
    and "resolve env p = resolve env q"
    and "map_of (processed_forms ag) p = None"
    and "map_of (processed_forms ag) q = None"
    and "process_form gen env p False ag = (Inr f1, ag1)"
    and "process_form gen env q False ag1 = (Inr f2, ag2)"
  shows "map_of (processed_forms ag2) p = Some f1
     \<and> map_of (processed_forms ag2) q = Some f2
     \<and> pf_file_path f1 = p \<and> pf_file_path f2 = q
     \<and> field_extraction_calls ag2 = field_extraction_calls ag + 2
     \<and> total_llm_calls ag2 = total_llm_calls ag + 2
     \<and> (\<exists>doc. process (doc_processor ag) env p = Inr doc
            \<and> process (doc_processor ag) env q = Inr doc
            \<and> file_path doc = resolve env p
            \<and> llm_history ag2 = llm_history ag
                  @ [ExtractFields (take 8000 (raw_text doc)) (take 3 (tables doc)),
                     ExtractFields (take 8000 (raw_text doc)) (take 3 (tables doc))])"
proof -
  from process_form_miss [OF assms(5)] assms(3)
  obtain doc r where doc: "process (doc_processor ag) env p = Inr doc"
    and f1: "f1 = make_form p doc r"
    and ag1: "ag1 = ag\<lparr>llm_history := llm_history ag @ [ExtractFields (take 8000 (raw_text doc)) (take 3 (tables doc))],
                       total_llm_calls := total_llm_calls ag + 1,
                       processed_forms := dict_set (processed_forms ag) p f1\<rparr>"
    by auto
  have q1: "map_of (processed_forms ag1) q = None"
    using assms(1,4) by (simp add: ag1 map_of_dict_set)
  from process_form_miss [OF assms(6)] q1
  obtain doc' r' where doc': "process (doc_processor ag1) env q = Inr doc'"
    and f2: "f2 = make_form q doc' r'"
    and ag2: "ag2 = ag1\<lparr>llm_history := llm_history ag1 @ [ExtractFields (take 8000 (raw_text doc')) (take 3 (tables doc'))],
                       total_llm_calls := total_llm_calls ag1 + 1,
                       processed_forms := dict_set (processed_forms ag1) q f2\<rparr>"
    by auto
  have same: "doc' = doc"
    using doc doc' process_resolve [OF assms(2), of "doc_processor ag"] by (simp add: ag1)
  have fp: "file_path doc = resolve env p"
    using doc by (rule process_file_path)
  show ?thesis
    using assms(1) doc doc' fp
    by (auto simp: ag1 ag2 same f1 f2 map_of_dict_set make_form_def field_extraction_calls_def
                   is_field_extraction_def process_resolve [OF assms(2), symmetric])
qed

theorem process_form_keyed_by_string_witness:
  "''w2.txt'' \<noteq> ''/forms/w2.txt''
   \<and> resolve demo_env ''w2.txt'' = resolve demo_env ''/forms/w2.txt''
   \<and> map fst (processed_forms
        (snd (process_form demo_llm demo_env ''/forms/w2.txt'' False
           (snd (process_form demo_llm demo_env ''w2.txt'' False (new_agent False))))))
       = [''w2.txt'', ''/forms/w2.txt'']
   \<and> field_extraction_calls
        (snd (process_form demo_llm demo_env ''/forms/w2.txt'' False
           (snd (process_form demo_llm demo_env ''w2.txt'' False (new_agent False))))) = 2"
proof -
  have ne: "''w2.txt'' \<noteq> ''/forms/w2.txt''"
    by simp
  have same: "resolve demo_env ''w2.txt'' = resolve demo_env ''/forms/w2.txt''"
    using demo_resolve_w2 by simp
  have fresh: "map_of (processed_forms (new_agent False)) ''w2.txt'' = None"
    "map_of (processed_forms (new_agent False)) ''/forms/w2.txt'' = None"
    by (simp_all add: new_agent_simps)
  obtain f1 a1 where first: "process_form demo_llm demo_env ''w2.txt'' False (new_agent False) = (Inr f1, a1)"
    using demo_call [of False "new_agent False" "''w2.txt''"] demo_resolve_w2
    by (auto simp: new_agent_simps)
  have a1: "doc_processor a1 = default_processor" "processed_forms a1 = [(''w2.txt'', f1)]"
    using process_form_miss [OF first] fresh by (auto simp: new_agent_simps dict_set_def)
  obtain f2 a2 where second: "process_form demo_llm demo_env ''/forms/w2.txt'' False a1 = (Inr f2, a2)"
    using demo_call [of False a1 "''/forms/w2.txt''"] demo_resolve_w2 a1 by auto
  have keys: "map fst (processed_forms a2) = [''w2.txt'', ''/forms/w2.txt'']"
    using process_form_miss_calls(3) [OF second] a1 by (simp add: dict_set_def)
  have zero: "field_extraction_calls (new_agent False) = 0"
    by (simp add: new_agent_simps field_extraction_calls_def)
  show ?thesis
    using process_form_keyed_by_string [OF ne same fresh first second] zero keys same
    by (simp add: first second)
qed
subsection \<open>Routing a question\<close>

lemma process_forms_length:
  "process_forms gen env paths ag = (Inr forms, ag1) \<Longrightarrow> length forms = length paths"
proof (induction paths arbitrary: ag forms)
  case Nil
  then show ?case by simp
next
  case (Cons p ps)
  then show ?case
    by (auto split: prod.splits sum.splits)
qed

lemma ask_history:
  "llm_history (snd (ask gen env question form ag))
     = llm_history ag @ [AnswerQuestion question (take 8000 (pf_raw_text form)) (pf_extracted_fields form)]"
  using run_tool_history [of gen "loads env" "AnswerQuestion question (take 8000 (pf_raw_text form)) (pf_extracted_fields form)"
      to_QAResult "llm_history ag"]
  by (auto simp: ask_def QuestionAnsweringTool_run_def form_document_def new_document_def Let_def
           split: prod.splits sum.splits option.splits)

lemma analyze_history:
  "llm_history (snd (analyze gen env question forms ag))
     = llm_history ag @ [AnalyzeDocuments (length forms) question
          (map doc_summary (zip (map form_document forms) (map pf_extracted_fields forms)))]"
  using run_tool_history [of gen "loads env" "AnalyzeDocuments (length forms) question
          (map doc_summary (zip (map form_document forms) (map pf_extracted_fields forms)))"
      to_AnalysisResult "llm_history ag"]
  by (auto simp: analyze_def CrossDocumentAnalysisTool_run_def split: prod.splits sum.splits)

lemma run_workflow_qa_history:
  assumes "process_forms gen env paths ag = (Inr forms, ag1)"
    and "analyze_task gen env task question (length forms) ag1 = (Inr ta, ag2)"
    and "subscript ta ''task_type'' = Inr (JStr ''qa'')"
  shows "length forms = length paths
     \<and> llm_history (snd (run_workflow gen env task paths question ag))
         = llm_history ag2 @
           [if length paths = 1
            then AnswerQuestion (question_or_task question task)
                   (take 8000 (pf_raw_text (hd forms))) (pf_extracted_fields (hd forms))
            else AnalyzeDocuments (length paths) (question_or_task question task)
                   (map doc_summary (zip (map form_document forms) (map pf_extracted_fields forms)))]"
proof -
  have len: "length forms = length paths"
    using assms(1) by (rule process_forms_length)
  show ?thesis
  proof (cases "length paths = 1")
    case True
    then show ?thesis
      using assms len ask_history [of gen env "question_or_task question task" "hd forms" ag2]
      by (auto simp: run_workflow_def split: prod.splits sum.splits)
  next
    case False
    then show ?thesis
      using assms len analyze_history [of gen env "question_or_task question task" forms ag2]
      by (auto simp: run_workflow_def ask_multiple_def split: prod.splits sum.splits)
  qed
qed


lemma demo_analyze_task:
  "analyze_task demo_llm demo_env task question n ag =
     (Inr (JObj [(''task_type'', JStr ''qa'')]),
      ag\<lparr>llm_history := llm_history ag @ [AnalyzeTask task question n],
         total_llm_calls := total_llm_calls ag + 1\<rparr>)"
  by (simp add: analyze_task_def generate_structured_def demo_llm_def demo_loads demo_decode_task)

lemma qa_task_type: "subscript (JObj [(''task_type'', JStr ''qa'')]) ''task_type'' = Inr (JStr ''qa'')"
  by (simp add: subscript_def)

text \<open>
  C7 (as amended). When every path has been processed and the task is classified as
  \<open>qa\<close>, the one request that follows the classification is a single-document question
  when there is exactly one document, and a cross-document analysis over all documents
  otherwise, that is for two or more documents and also for none.
\<close>

theorem run_workflow_qa_routing:
  assumes "process_forms gen env paths ag = (Inr forms, ag1)"
    and "analyze_task gen env task question (length forms) ag1 = (Inr ta, ag2)"
    and "subscript ta ''task_type'' = Inr (JStr ''qa'')"
  shows "length forms = length paths
     \<and> llm_history (snd (run_workflow gen env task paths question ag))
         = llm_history ag2 @
           [if length paths = 1
            then AnswerQuestion (question_or_task question task)
                   (take 8000 (pf_raw_text (hd forms))) (pf_extracted_fields (hd forms))
            else AnalyzeDocuments (length paths) (question_or_task question task)
                   (map doc_summary (zip (map form_document forms) (map pf_extracted_fields forms)))]"
  using assms by (rule run_workflow_qa_history)

theorem run_workflow_qa_routing_witness:
  "(\<exists>t f. llm_history (snd (run_workflow demo_llm demo_env ''Who is named?'' [''w2.txt''] None (new_agent False)))
     = [ExtractFields ''Name: John'' [], AnalyzeTask ''Who is named?'' None 1,
        AnswerQuestion ''Who is named?'' t f])
   \<and> (\<exists>ds. llm_history (snd (run_workflow demo_llm demo_env ''Who is named?''
                  [''w2.txt'', ''/forms/w2.txt''] None (new_agent False)))
        = [ExtractFields ''Name: John'' [], ExtractFields ''Name: John'' [],
           AnalyzeTask ''Who is named?'' None 2,
           AnalyzeDocuments 2 ''Who is named?'' ds])"
proof -
  let ?q = "''Who is named?''"
  obtain f1 a1 where first: "process_form demo_llm demo_env ''w2.txt'' False (new_agent False) = (Inr f1, a1)"
    and a1: "llm_history a1 = [ExtractFields ''Name: John'' []]" "doc_processor a1 = default_processor"
      "map_of (processed_forms a1) ''/forms/w2.txt'' = None"
    using demo_call [of False "new_agent False" "''w2.txt''"] demo_resolve_w2
    by (auto simp: new_agent_simps dict_set_def)
  obtain f2 a2 where second: "process_form demo_llm demo_env ''/forms/w2.txt'' False a1 = (Inr f2, a2)"
    and a2: "llm_history a2 = [ExtractFields ''Name: John'' [], ExtractFields ''Name: John'' []]"
    using demo_call [of False a1 "''/forms/w2.txt''"] demo_resolve_w2 a1
    by auto
  have one: "process_forms demo_llm demo_env [''w2.txt''] (new_agent False) = (Inr [f1], a1)"
    by (simp add: first)
  have two: "process_forms demo_llm demo_env [''w2.txt'', ''/forms/w2.txt''] (new_agent False) = (Inr [f1, f2], a2)"
    by (simp add: first second)
  show ?thesis
    using run_workflow_qa_routing [OF one demo_analyze_task qa_task_type, of ?q None]
      run_workflow_qa_routing [OF two demo_analyze_task qa_task_type, of ?q None]
    by (simp add: question_or_task_def a1 a2)
qed

text \<open>
  The claim as stated sends a question to the multi-document path exactly when there are
  two or more documents. With no document at all and the task classified as \<open>qa\<close>, the
  workflow sends a cross-document analysis over zero documents.
\<close>

theorem run_workflow_no_documents_counterexample:
  "length ([] :: string list) < 2
   \<and> fst (analyze_task demo_llm demo_env ''How many forms are there?'' None 0 (new_agent False))
       = Inr (JObj [(''task_type'', JStr ''qa'')])
   \<and> llm_history (snd (run_workflow demo_llm demo_env ''How many forms are there?'' [] None (new_agent False)))
       = [AnalyzeTask ''How many forms are there?'' None 0,
          AnalyzeDocuments 0 ''How many forms are there?'' []]"
proof -
  have none: "process_forms demo_llm demo_env [] (new_agent False) = (Inr [], new_agent False)"
    by simp
  show ?thesis
    using run_workflow_qa_history [OF none demo_analyze_task qa_task_type, of "''How many forms are there?''" None]
    by (simp add: demo_analyze_task question_or_task_def new_agent_simps)
qed

subsection \<open>Decoding the model's text\<close>

lemma split_on_nonempty: "split_on c s \<noteq> []"
  by (induction s) (auto split: list.splits)

lemma split_on_append:
  "split_on c (x @ c # y) = split_on c x @ split_on c y"
proof (induction x)
  case Nil
  then show ?case by simp
next
  case (Cons a x)
  then show ?case
    using split_on_nonempty [of c x]
    by (cases "split_on c x") auto
qed

lemma split_on_no_sep: "c \<notin> set s \<Longrightarrow> split_on c s = [s]"
  by (induction s) auto

lemma join_split: "join_on c (split_on c s) = s"
proof (induction s)
  case Nil
  then show ?case by simp
next
  case (Cons a s)
  obtain w ws where sp: "split_on c s = w # ws"
    using split_on_nonempty [of c s] by (cases "split_on c s") auto
  show ?case
    using Cons sp by (cases ws) auto
qed

lemma lstrip_spaces:
  "list_all is_space ws \<Longrightarrow> \<not> is_space x \<Longrightarrow> lstrip (ws @ x # xs) = x # xs"
  by (induction ws) (auto simp: lstrip_def)

lemma rstrip_spaces:
  "list_all is_space ws \<Longrightarrow> \<not> is_space x \<Longrightarrow> rstrip (xs @ x # ws) = xs @ [x]"
proof -
  assume a: "list_all is_space ws" "\<not> is_space x"
  have "dropWhile is_space (rev ws @ x # rev xs) = x # rev xs"
    using a by (induction ws rule: rev_induct) (auto simp: list_all_iff dropWhile_append)
  then show ?thesis
    by (simp add: rstrip_def)
qed

lemma strip_spaces:
  assumes "list_all is_space ws1" "list_all is_space ws2" "\<not> is_space x" "\<not> is_space y"
  shows "strip (ws1 @ x # m @ y # ws2) = x # m @ [y]"
proof -
  have "lstrip (ws1 @ x # m @ y # ws2) = x # m @ y # ws2"
    using assms by (simp add: lstrip_spaces)
  moreover have "rstrip ((x # m) @ y # ws2) = (x # m) @ [y]"
    using assms by (rule_tac rstrip_spaces)
  ultimately show ?thesis
    by (simp add: strip_def)
qed

lemma backtick_not_space: "\<not> is_space (CHR 0x60)"
  by (simp add: is_space_def)

lemma braces_not_space: "\<not> is_space (CHR ''{'')" "\<not> is_space (CHR ''}'')"
  by (simp_all add: is_space_def)

lemma fenced_content:
  assumes "list_all is_space ws1" "list_all is_space ws2" "CHR 0x0A \<notin> set info"
  shows "response_content (ws1 @ fence @ info @ [CHR 0x0A] @ j @ [CHR 0x0A] @ fence @ ws2) = j"
proof -
  let ?nl = "CHR 0x0A"
  let ?bt = "CHR 0x60"
  let ?block = "fence @ info @ [?nl] @ j @ [?nl] @ fence"
  have shape: "ws1 @ fence @ info @ [?nl] @ j @ [?nl] @ fence @ ws2
      = ws1 @ ?bt # ([?bt, ?bt] @ info @ [?nl] @ j @ [?nl] @ [?bt, ?bt]) @ ?bt # ws2"
    by (simp add: fence_def)
  have st: "strip (ws1 @ fence @ info @ [?nl] @ j @ [?nl] @ fence @ ws2) = ?block"
    unfolding shape
    using strip_spaces [OF assms(1,2) backtick_not_space backtick_not_space,
            of "[?bt, ?bt] @ info @ [?nl] @ j @ [?nl] @ [?bt, ?bt]"]
    by (simp add: fence_def)
  have sw: "startswith ?block fence"
    by (simp add: startswith_def)
  have nf: "?nl \<notin> set fence"
    by (simp add: fence_def)
  have "split_on ?nl ?block = split_on ?nl (fence @ info) @ split_on ?nl (j @ ?nl # fence)"
    using split_on_append [of ?nl "fence @ info" "j @ ?nl # fence"] by simp
  also have "\<dots> = [fence @ info] @ split_on ?nl j @ [fence]"
    using assms(3) nf by (simp add: split_on_append split_on_no_sep)
  finally have lines:
    "split_on ?nl (fence @ info @ ?nl # j @ ?nl # fence) = (fence @ info) # split_on ?nl j @ [fence]"
    by simp
  show ?thesis
    unfolding response_content_def st Let_def using sw
    by (simp add: lines join_split butlast_append)
qed

lemma lstrip_keeps:
  "\<not> is_space x \<Longrightarrow> \<exists>pre'. lstrip (pre @ x # xs) = pre' @ x # xs \<and> set pre' \<subseteq> set pre"
proof (induction pre)
  case Nil
  then show ?case by (simp add: lstrip_def)
next
  case (Cons a pre)
  show ?case
  proof (cases "is_space a")
    case True
    then show ?thesis
      using Cons by (auto simp: lstrip_def)
  next
    case False
    then have "lstrip ((a # pre) @ x # xs) = (a # pre) @ x # xs"
      by (simp add: lstrip_def)
    then show ?thesis by blast
  qed
qed

lemma rstrip_keeps:
  "\<not> is_space x \<Longrightarrow> \<exists>post'. rstrip (xs @ x # post) = xs @ x # post' \<and> set post' \<subseteq> set post"
proof (induction post rule: rev_induct)
  case Nil
  then show ?case by (simp add: rstrip_def)
next
  case (snoc a post)
  show ?case
  proof (cases "is_space a")
    case True
    then have "rstrip (xs @ x # post @ [a]) = rstrip (xs @ x # post)"
      by (simp add: rstrip_def)
    then show ?thesis
      using snoc by auto
  next
    case False
    then have "rstrip (xs @ x # post @ [a]) = xs @ x # post @ [a]"
      by (simp add: rstrip_def)
    then show ?thesis by blast
  qed
qed

lemma strip_keeps:
  assumes "\<not> is_space x" "\<not> is_space y"
  shows "\<exists>pre' post'. strip (pre @ x # m @ y # post) = pre' @ x # m @ y # post'
           \<and> set pre' \<subseteq> set pre \<and> set post' \<subseteq> set post"
proof -
  obtain pre' where l: "lstrip (pre @ x # m @ y # post) = pre' @ x # m @ y # post" "set pre' \<subseteq> set pre"
    using lstrip_keeps [OF assms(1), of pre "m @ y # post"] by auto
  obtain post' where r: "rstrip ((pre' @ x # m) @ y # post) = (pre' @ x # m) @ y # post'" "set post' \<subseteq> set post"
    using rstrip_keeps [OF assms(2), of "pre' @ x # m" post] by auto
  show ?thesis
    using l r by (auto simp: strip_def)
qed

lemma dropWhile_upto:
  "c \<notin> set xs \<Longrightarrow> dropWhile (\<lambda>a. a \<noteq> c) (xs @ c # ys) = c # ys"
  by (induction xs) auto

lemma brace_span_found:
  assumes "CHR ''{'' \<notin> set pre" "CHR ''}'' \<notin> set post"
  shows "brace_span (pre @ CHR ''{'' # m @ CHR ''}'' # post) = Some (CHR ''{'' # m @ [CHR ''}''])"
proof -
  have d1: "dropWhile (\<lambda>c. c \<noteq> CHR ''{'') (pre @ CHR ''{'' # m @ CHR ''}'' # post) = CHR ''{'' # m @ CHR ''}'' # post"
    using assms(1) by (rule dropWhile_upto)
  have d2: "dropWhile (\<lambda>c. c \<noteq> CHR ''}'') (rev post @ CHR ''}'' # rev m @ [CHR ''{'']) = CHR ''}'' # rev m @ [CHR ''{'']"
    using assms(2) dropWhile_upto [of "CHR ''}''" "rev post" "rev m @ [CHR ''{'']"] by simp
  show ?thesis
    by (simp add: brace_span_def d1 d2 Let_def)
qed

lemma prose_span:
  assumes "CHR ''{'' \<notin> set pre" "CHR ''}'' \<notin> set post"
  shows "brace_span (strip (pre @ CHR ''{'' # m @ CHR ''}'' # post)) = Some (CHR ''{'' # m @ [CHR ''}''])"
proof -
  obtain pre' post' where s: "strip (pre @ CHR ''{'' # m @ CHR ''}'' # post) = pre' @ CHR ''{'' # m @ CHR ''}'' # post'"
    and sub: "set pre' \<subseteq> set pre" "set post' \<subseteq> set post"
    using strip_keeps [OF braces_not_space, of pre m post] by auto
  show ?thesis
    unfolding s using assms sub by (intro brace_span_found) auto
qed

lemma decode_response_cases:
  "decode_response lds raw =
     (case lds (response_content raw) of
        Inr v \<Rightarrow> Inr v
      | Inl e \<Rightarrow>
         if is_JSONDecodeError e then
           (case brace_span (response_content raw) of
              Some span \<Rightarrow> lds span
            | None \<Rightarrow> Inl (FailedToParse (response_content raw)))
         else Inl e)"
  by (simp add: decode_response_def Let_def)

lemma unfenced_content: "\<not> startswith (strip raw) fence \<Longrightarrow> response_content raw = strip raw"
  by (simp add: response_content_def Let_def)

lemma fenced_lines:
  "startswith (strip raw) fence \<Longrightarrow>
     response_content raw = join_on (CHR 0x0A) (butlast (tl (split_on (CHR 0x0A) (strip raw))))"
  by (simp add: response_content_def Let_def)

lemma short_fence:
  assumes "startswith (strip raw) fence" "length (split_on (CHR 0x0A) (strip raw)) \<le> 2"
  shows "response_content raw = []"
proof -
  have "butlast (tl (split_on (CHR 0x0A) (strip raw))) = []"
    using assms(2)
    by (cases "split_on (CHR 0x0A) (strip raw)"; cases "tl (split_on (CHR 0x0A) (strip raw))") auto
  then show ?thesis
    using assms(1) by (simp add: fenced_lines)
qed

lemma decode_span:
  assumes "response_content raw = pre @ CHR ''{'' # m @ CHR ''}'' # post"
    and "CHR ''{'' \<notin> set pre" "CHR ''}'' \<notin> set post"
    and "lds (response_content raw) = Inl e0" "is_JSONDecodeError e0"
  shows "decode_response lds raw = lds (CHR ''{'' # m @ [CHR ''}''])"
  using assms brace_span_found [of pre post m]
  by (simp add: decode_response_cases)

text \<open>
  C2 (as amended). The content that is parsed is the stripped text, or, when the
  stripped text begins with a triple-backtick fence, the stripped text without its
  first and its last line, whatever these lines are; a fence that takes two lines or
  fewer (opened and closed on one line, or opened and never closed before the last
  line) leaves empty content. Decoding succeeds and returns the parsed value when
  (a) the stripped text does not begin with a fence and is JSON; (b) the text is, up
  to surrounding whitespace, a fence with its tag, a newline, the JSON, a newline and a
  fence; (c) \<open>json.loads\<close> raises JSONDecodeError on the content and the content is a
  JSON object surrounded by prose with no opening brace before it and no closing brace
  after it, so that the span from the first opening brace to the last closing brace of
  the content is the object; in particular for a text that, stripped, does not begin
  with a fence and is such an object in such prose. Decoding raises exactly when
  \<open>json.loads\<close> raises on the content an exception other than JSONDecodeError, which is
  let through, or raises JSONDecodeError and either there is no span, which gives the
  ValueError that carries the parse error and the content, or \<open>json.loads\<close> raises on
  the span, which lets that exception through. A value that is returned is always what
  \<open>json.loads\<close> read from the content or from its span, never a made-up empty mapping.
\<close>

theorem decode_response_recovery:
  "(\<not> startswith (strip raw) fence \<longrightarrow> response_content raw = strip raw)
   \<and> (startswith (strip raw) fence \<longrightarrow>
        response_content raw = join_on (CHR 0x0A) (butlast (tl (split_on (CHR 0x0A) (strip raw)))))
   \<and> (startswith (strip raw) fence \<and> length (split_on (CHR 0x0A) (strip raw)) \<le> 2 \<longrightarrow>
        response_content raw = [])
   \<and> (\<not> startswith (strip raw) fence \<and> lds (strip raw) = Inr v \<longrightarrow> decode_response lds raw = Inr v)
   \<and> (list_all is_space ws1 \<and> list_all is_space ws2 \<and> CHR 0x0A \<notin> set info \<and> lds j = Inr v \<longrightarrow>
        decode_response lds (ws1 @ fence @ info @ [CHR 0x0A] @ j @ [CHR 0x0A] @ fence @ ws2) = Inr v)
   \<and> (response_content raw = pre @ CHR ''{'' # m @ CHR ''}'' # post
        \<and> CHR ''{'' \<notin> set pre \<and> CHR ''}'' \<notin> set post
        \<and> lds (response_content raw) = Inl e0 \<and> is_JSONDecodeError e0
        \<and> lds (CHR ''{'' # m @ [CHR ''}'']) = Inr v \<longrightarrow>
        decode_response lds raw = Inr v)
   \<and> (CHR ''{'' \<notin> set pre \<and> CHR ''}'' \<notin> set post
        \<and> \<not> startswith (strip (pre @ CHR ''{'' # m @ CHR ''}'' # post)) fence
        \<and> lds (strip (pre @ CHR ''{'' # m @ CHR ''}'' # post)) = Inl e0 \<and> is_JSONDecodeError e0
        \<and> lds (CHR ''{'' # m @ [CHR ''}'']) = Inr v \<longrightarrow>
        decode_response lds (pre @ CHR ''{'' # m @ CHR ''}'' # post) = Inr v)
   \<and> (decode_response lds raw = Inl e \<longleftrightarrow>
        (lds (response_content raw) = Inl e \<and> \<not> is_JSONDecodeError e)
        \<or> ((\<exists>e1. lds (response_content raw) = Inl e1 \<and> is_JSONDecodeError e1)
            \<and> (case brace_span (response_content raw) of
                  None \<Rightarrow> e = FailedToParse (response_content raw)
                | Some span \<Rightarrow> lds span = Inl e)))
   \<and> (decode_response lds raw = Inr w \<longrightarrow>
        lds (response_content raw) = Inr w
        \<or> ((\<exists>e1. lds (response_content raw) = Inl e1 \<and> is_JSONDecodeError e1)
            \<and> (\<exists>span. brace_span (response_content raw) = Some span \<and> lds span = Inr w)))"
proof -
  have c0: "\<not> startswith (strip raw) fence \<longrightarrow> response_content raw = strip raw"
    by (simp add: unfenced_content)
  have f1: "startswith (strip raw) fence \<longrightarrow>
        response_content raw = join_on (CHR 0x0A) (butlast (tl (split_on (CHR 0x0A) (strip raw))))"
    by (simp add: fenced_lines)
  have f2: "startswith (strip raw) fence \<and> length (split_on (CHR 0x0A) (strip raw)) \<le> 2 \<longrightarrow>
        response_content raw = []"
    by (simp add: short_fence)
  have a: "\<not> startswith (strip raw) fence \<and> lds (strip raw) = Inr v \<longrightarrow> decode_response lds raw = Inr v"
    by (simp add: decode_response_cases unfenced_content)
  have b: "list_all is_space ws1 \<and> list_all is_space ws2 \<and> CHR 0x0A \<notin> set info \<and> lds j = Inr v \<longrightarrow>
        decode_response lds (ws1 @ fence @ info @ [CHR 0x0A] @ j @ [CHR 0x0A] @ fence @ ws2) = Inr v"
    using fenced_content [of ws1 ws2 info j] by (auto simp: decode_response_cases)
  have c1: "response_content raw = pre @ CHR ''{'' # m @ CHR ''}'' # post
        \<and> CHR ''{'' \<notin> set pre \<and> CHR ''}'' \<notin> set post
        \<and> lds (response_content raw) = Inl e0 \<and> is_JSONDecodeError e0
        \<and> lds (CHR ''{'' # m @ [CHR ''}'']) = Inr v \<longrightarrow>
        decode_response lds raw = Inr v"
    using decode_span [of raw pre m post lds e0] by auto
  have c2: "CHR ''{'' \<notin> set pre \<and> CHR ''}'' \<notin> set post
        \<and> \<not> startswith (strip (pre @ CHR ''{'' # m @ CHR ''}'' # post)) fence
        \<and> lds (strip (pre @ CHR ''{'' # m @ CHR ''}'' # post)) = Inl e0 \<and> is_JSONDecodeError e0
        \<and> lds (CHR ''{'' # m @ [CHR ''}'']) = Inr v \<longrightarrow>
        decode_response lds (pre @ CHR ''{'' # m @ CHR ''}'' # post) = Inr v"
    by (simp add: decode_response_cases unfenced_content prose_span)
  have d: "decode_response lds raw = Inl e \<longleftrightarrow>
        (lds (response_content raw) = Inl e \<and> \<not> is_JSONDecodeError e)
        \<or> ((\<exists>e1. lds (response_content raw) = Inl e1 \<and> is_JSONDecodeError e1)
            \<and> (case brace_span (response_content raw) of
                  None \<Rightarrow> e = FailedToParse (response_content raw)
                | Some span \<Rightarrow> lds span = Inl e))"
    by (auto simp: decode_response_cases split: option.splits sum.splits)
  have e: "decode_response lds raw = Inr w \<longrightarrow>
        lds (response_content raw) = Inr w
        \<or> ((\<exists>e1. lds (response_content raw) = Inl e1 \<and> is_JSONDecodeError e1)
            \<and> (\<exists>span. brace_span (response_content raw) = Some span \<and> lds span = Inr w))"
    by (auto simp: decode_response_cases split: option.splits sum.splits if_splits)
  show ?thesis
    using c0 f1 f2 a b c1 c2 d e by blast
qed

text \<open>
  The decoder at explicit texts: bare JSON, a fenced block, an object in prose, an object
  in prose inside a fenced block, a text with no brace, a fence opened and closed on one
  line, an unclosed fence, and last a reader that raises RecursionError, as
  \<open>json.loads\<close> does on a text nested beyond the interpreter's limit.
\<close>

theorem decode_response_recovery_witness:
  \<open>decode_response json_loads '' {"a": 1} '' = Inr (JObj [(''a'', JInt 1)])
   \<and> decode_response json_loads (fence @ ''json'' @ [CHR 0x0A] @ ''{"a": 1}'' @ [CHR 0x0A] @ fence)
       = Inr (JObj [(''a'', JInt 1)])
   \<and> decode_response json_loads ''Sure! {"a": 1} ok'' = Inr (JObj [(''a'', JInt 1)])
   \<and> decode_response json_loads (fence @ ''json'' @ [CHR 0x0A] @ ''Sure! {"a": 1} ok'' @ [CHR 0x0A] @ fence)
       = Inr (JObj [(''a'', JInt 1)])
   \<and> decode_response json_loads ''no json here'' = Inl (FailedToParse ''no json here'')
   \<and> decode_response json_loads (fence @ ''{"a": 1}'' @ fence) = Inl (FailedToParse [])
   \<and> decode_response json_loads (fence @ ''json'' @ [CHR 0x0A] @ ''{"a": 1}'') = Inl (FailedToParse [])
   \<and> decode_response (\<lambda>s. Inl RecursionError) ''[[[[1]]]]'' = Inl RecursionError\<close>
proof -
  let ?obj = "JObj [(''a'', JInt 1)]"
  have parsed: \<open>json_loads ''{"a": 1}'' = Inr (JObj [(''a'', JInt 1)])\<close>
    by code_simp
  have a1: \<open>\<not> startswith (strip '' {"a": 1} '') fence\<close>
    and a2: \<open>strip '' {"a": 1} '' = ''{"a": 1}''\<close>
    by code_simp+
  have c1: \<open>\<not> startswith (strip ''Sure! {"a": 1} ok'') fence\<close>
    and c2: \<open>json_loads (strip ''Sure! {"a": 1} ok'') = Inl (JSONDecodeError ''Sure! {"a": 1} ok'')\<close>
    and c3: \<open>json_loads ''Sure! {"a": 1} ok'' = Inl (JSONDecodeError ''Sure! {"a": 1} ok'')\<close>
    by code_simp+
  have isd: "\<And>d. is_JSONDecodeError (JSONDecodeError d)"
    by (simp add: is_JSONDecodeError_def)
  have d1: "json_loads (response_content ''no json here'') = Inl (JSONDecodeError ''no json here'')"
    and d2: "brace_span (response_content ''no json here'') = None"
    and d3: "response_content ''no json here'' = ''no json here''"
    by code_simp+
  have e1: "json_loads [] = Inl (JSONDecodeError [])"
    and e2: "brace_span [] = None"
    by code_simp+
  have g1: \<open>startswith (strip (fence @ ''{"a": 1}'' @ fence)) fence\<close>
    and g2: \<open>length (split_on (CHR 0x0A) (strip (fence @ ''{"a": 1}'' @ fence))) \<le> 2\<close>
    and g3: \<open>startswith (strip (fence @ ''json'' @ [CHR 0x0A] @ ''{"a": 1}'')) fence\<close>
    and g4: \<open>length (split_on (CHR 0x0A) (strip (fence @ ''json'' @ [CHR 0x0A] @ ''{"a": 1}''))) \<le> 2\<close>
    by code_simp+
  have a: \<open>decode_response json_loads '' {"a": 1} '' = Inr (JObj [(''a'', JInt 1)])\<close>
    using decode_response_recovery [where raw = \<open>'' {"a": 1} ''\<close> and lds = json_loads and v = ?obj,
            THEN conjunct2, THEN conjunct2, THEN conjunct2, THEN conjunct1] a1 a2 parsed
    by simp
  have b: \<open>decode_response json_loads (fence @ ''json'' @ [CHR 0x0A] @ ''{"a": 1}'' @ [CHR 0x0A] @ fence)
       = Inr (JObj [(''a'', JInt 1)])\<close>
    using decode_response_recovery [where lds = json_loads and v = ?obj and ?ws1.0 = "[]" and ?ws2.0 = "[]"
        and info = "''json''" and j = \<open>''{"a": 1}''\<close>, THEN conjunct2, THEN conjunct2, THEN conjunct2, THEN conjunct2, THEN conjunct1] parsed
    by simp
  have c: \<open>decode_response json_loads ''Sure! {"a": 1} ok'' = Inr (JObj [(''a'', JInt 1)])\<close>
    using decode_response_recovery [where lds = json_loads and v = ?obj and pre = "''Sure! ''"
        and post = "'' ok''" and m = \<open>''"a": 1''\<close> and ?e0.0 = \<open>JSONDecodeError ''Sure! {"a": 1} ok''\<close>,
        THEN conjunct2, THEN conjunct2, THEN conjunct2, THEN conjunct2, THEN conjunct2, THEN conjunct2, THEN conjunct1]
      c1 c2 parsed isd
    by simp
  have fc: \<open>response_content (fence @ ''json'' @ [CHR 0x0A] @ ''Sure! {"a": 1} ok'' @ [CHR 0x0A] @ fence)
       = ''Sure! {"a": 1} ok''\<close>
    using fenced_content [of "[]" "[]" "''json''" \<open>''Sure! {"a": 1} ok''\<close>] by simp
  have cf: \<open>decode_response json_loads (fence @ ''json'' @ [CHR 0x0A] @ ''Sure! {"a": 1} ok'' @ [CHR 0x0A] @ fence)
       = Inr (JObj [(''a'', JInt 1)])\<close>
    using decode_response_recovery [where lds = json_loads and v = ?obj and pre = "''Sure! ''"
        and post = "'' ok''" and m = \<open>''"a": 1''\<close> and ?e0.0 = \<open>JSONDecodeError ''Sure! {"a": 1} ok''\<close>
        and raw = \<open>fence @ ''json'' @ [CHR 0x0A] @ ''Sure! {"a": 1} ok'' @ [CHR 0x0A] @ fence\<close>,
        THEN conjunct2, THEN conjunct2, THEN conjunct2, THEN conjunct2, THEN conjunct2, THEN conjunct1]
      fc c3 parsed isd
    by simp
  have d: "decode_response json_loads ''no json here'' = Inl (FailedToParse ''no json here'')"
    using decode_response_recovery [where raw = "''no json here''" and lds = json_loads
        and e = "FailedToParse ''no json here''", THEN conjunct2, THEN conjunct2, THEN conjunct2, THEN conjunct2, THEN conjunct2, THEN conjunct2, THEN conjunct2, THEN conjunct1] d1 d2 d3 isd
    by simp
  have rc1: \<open>response_content (fence @ ''{"a": 1}'' @ fence) = []\<close>
    using decode_response_recovery [where raw = \<open>fence @ ''{"a": 1}'' @ fence\<close>, THEN conjunct2, THEN conjunct2, THEN conjunct1] g1 g2
    by (rule_tac mp) simp_all
  have rc2: \<open>response_content (fence @ ''json'' @ [CHR 0x0A] @ ''{"a": 1}'') = []\<close>
    using decode_response_recovery [where raw = \<open>fence @ ''json'' @ [CHR 0x0A] @ ''{"a": 1}''\<close>, THEN conjunct2, THEN conjunct2, THEN conjunct1] g3 g4
    by (rule_tac mp) simp_all
  have f: \<open>decode_response json_loads (fence @ ''{"a": 1}'' @ fence) = Inl (FailedToParse [])\<close>
    using decode_response_recovery [where raw = \<open>fence @ ''{"a": 1}'' @ fence\<close> and lds = json_loads
        and e = "FailedToParse []", THEN conjunct2, THEN conjunct2, THEN conjunct2, THEN conjunct2, THEN conjunct2, THEN conjunct2, THEN conjunct2, THEN conjunct1] e1 e2 isd
    unfolding rc1 by simp
  have g: \<open>decode_response json_loads (fence @ ''json'' @ [CHR 0x0A] @ ''{"a": 1}'') = Inl (FailedToParse [])\<close>
    using decode_response_recovery [where raw = \<open>fence @ ''json'' @ [CHR 0x0A] @ ''{"a": 1}''\<close>
        and lds = json_loads and e = "FailedToParse []", THEN conjunct2, THEN conjunct2, THEN conjunct2, THEN conjunct2, THEN conjunct2, THEN conjunct2, THEN conjunct2, THEN conjunct1] e1 e2 isd
    unfolding rc2 by simp
  have h: "decode_response (\<lambda>s. Inl RecursionError) ''[[[[1]]]]'' = Inl RecursionError"
    using decode_response_recovery [where raw = "''[[[[1]]]]''" and lds = "\<lambda>s. Inl RecursionError"
        and e = RecursionError, THEN conjunct2, THEN conjunct2, THEN conjunct2, THEN conjunct2, THEN conjunct2, THEN conjunct2, THEN conjunct2, THEN conjunct1]
    by (simp add: is_JSONDecodeError_def)
  show ?thesis
    using a b c cf d f g h by (intro conjI)
qed

text \<open>
  The claim as stated recovers JSON surrounded by any prose from the first balanced
  brace span. Here the JSON object is followed by prose that holds braces: the span
  taken is the greedy one, it does not parse, and decoding raises although the first
  balanced span is the object; what it raises is the JSONDecodeError of the span, not
  the ValueError that carries the text.
\<close>

theorem decode_response_trailing_braces_counterexample:
  \<open>json_loads ''{"a": 1}'' = Inr (JObj [(''a'', JInt 1)])
   \<and> decode_response json_loads ''{"a": 1} as {requested}'' = Inl (JSONDecodeError ''{"a": 1} as {requested}'')\<close>
  by code_simp

subsection \<open>Defaults of the tools\<close>

lemma run_tool_answer:
  "gen h req = Inr raw \<Longrightarrow>
     fst (run_tool gen lds req build h) =
       (case decode_response lds raw of Inl e \<Rightarrow> Inl e | Inr v \<Rightarrow> build v)"
  by (simp add: run_tool_def generate_structured_def split: sum.splits)

lemma to_results_object:
  "to_ExtractionResult (JObj d) =
     Inr \<lparr>er_fields = dict_get d ''fields'' (JObj []), er_form_type = dict_get d ''form_type'' JNull,
          er_confidence = dict_get d ''confidence'' (JFloat ''0.0''),
          er_reasoning = dict_get d ''reasoning'' (JStr [])\<rparr>"
  "to_QAResult (JObj d) =
     Inr \<lparr>qa_answer = dict_get d ''answer'' (JStr ''Unable to determine''),
          qa_confidence = dict_get d ''confidence'' (JFloat ''0.0''),
          qa_evidence = dict_get d ''evidence'' (JArr []),
          qa_reasoning = dict_get d ''reasoning'' (JStr [])\<rparr>"
  "to_SummaryResult (JObj d) =
     Inr \<lparr>sr_summary = dict_get d ''summary'' (JStr []),
          sr_key_points = dict_get d ''key_points'' (JArr []),
          sr_form_type = dict_get d ''form_type'' (JStr ''unknown''),
          sr_important_values = dict_get d ''important_values'' (JObj [])\<rparr>"
  "to_AnalysisResult (JObj d) =
     Inr \<lparr>ar_answer = dict_get d ''answer'' (JStr []),
          ar_insights = dict_get d ''insights'' (JArr []),
          ar_comparisons = dict_get d ''comparisons'' (JObj []),
          ar_statistics = dict_get d ''statistics'' (JObj [])\<rparr>"
  by (simp_all add: to_ExtractionResult_def to_QAResult_def to_SummaryResult_def to_AnalysisResult_def
        result_get_def)

lemma to_results_other:
  assumes "\<forall>d. v \<noteq> JObj d"
  shows "to_ExtractionResult v = Inl AttributeError" "to_QAResult v = Inl AttributeError"
    "to_SummaryResult v = Inl AttributeError" "to_AnalysisResult v = Inl AttributeError"
  using assms
  by (cases v; simp add: to_ExtractionResult_def to_QAResult_def to_SummaryResult_def
        to_AnalysisResult_def result_get_def)+

text \<open>
  C5 (as amended). Whatever the request, when the model's text decodes to a JSON
  mapping each of the four tools returns its typed result, whichever keys are missing:
  every field is the value under its key, and a missing key gives the default (the
  float 0.0 for a confidence, the empty list for evidence, key points and insights, the
  empty mapping for fields, important values, comparisons and statistics). A key that is
  present passes its value through as it is. A text that cannot be decoded is an error
  of every tool, and so is a text that decodes to JSON other than a mapping.
\<close>

theorem tools_fill_defaults:
  assumes "\<forall>req. gen h req = Inr raw"
  shows "(decode_response lds raw = Inr (JObj d) \<longrightarrow>
           fst (FieldExtractionTool_run gen lds doc h) =
             Inr \<lparr>er_fields = dict_get d ''fields'' (JObj []), er_form_type = dict_get d ''form_type'' JNull,
                  er_confidence = dict_get d ''confidence'' (JFloat ''0.0''),
                  er_reasoning = dict_get d ''reasoning'' (JStr [])\<rparr>
           \<and> fst (QuestionAnsweringTool_run gen lds question doc ctx h) =
             Inr \<lparr>qa_answer = dict_get d ''answer'' (JStr ''Unable to determine''),
                  qa_confidence = dict_get d ''confidence'' (JFloat ''0.0''),
                  qa_evidence = dict_get d ''evidence'' (JArr []),
                  qa_reasoning = dict_get d ''reasoning'' (JStr [])\<rparr>
           \<and> fst (SummarizationTool_run gen lds doc ctx style h) =
             Inr \<lparr>sr_summary = dict_get d ''summary'' (JStr []),
                  sr_key_points = dict_get d ''key_points'' (JArr []),
                  sr_form_type = dict_get d ''form_type'' (JStr ''unknown''),
                  sr_important_values = dict_get d ''important_values'' (JObj [])\<rparr>
           \<and> fst (CrossDocumentAnalysisTool_run gen lds question docs ctxs h) =
             Inr \<lparr>ar_answer = dict_get d ''answer'' (JStr []),
                  ar_insights = dict_get d ''insights'' (JArr []),
                  ar_comparisons = dict_get d ''comparisons'' (JObj []),
                  ar_statistics = dict_get d ''statistics'' (JObj [])\<rparr>)
     \<and> (map_of d k = None \<longrightarrow> dict_get d k dflt = dflt)
     \<and> (map_of d k = Some x \<longrightarrow> dict_get d k dflt = x)
     \<and> (decode_response lds raw = Inl e \<longrightarrow>
           fst (FieldExtractionTool_run gen lds doc h) = Inl e
           \<and> fst (QuestionAnsweringTool_run gen lds question doc ctx h) = Inl e
           \<and> fst (SummarizationTool_run gen lds doc ctx style h) = Inl e
           \<and> fst (CrossDocumentAnalysisTool_run gen lds question docs ctxs h) = Inl e)
     \<and> (decode_response lds raw = Inr v \<and> (\<forall>d. v \<noteq> JObj d) \<longrightarrow>
           fst (FieldExtractionTool_run gen lds doc h) = Inl AttributeError
           \<and> fst (QuestionAnsweringTool_run gen lds question doc ctx h) = Inl AttributeError
           \<and> fst (SummarizationTool_run gen lds doc ctx style h) = Inl AttributeError
           \<and> fst (CrossDocumentAnalysisTool_run gen lds question docs ctxs h) = Inl AttributeError)"
proof -
  have ans: "\<And>req build. fst (run_tool gen lds req build h) =
       (case decode_response lds raw of Inl e \<Rightarrow> Inl e | Inr v \<Rightarrow> build v)"
    using assms by (simp add: run_tool_answer)
  have obj: "decode_response lds raw = Inr (JObj d) \<longrightarrow>
           fst (FieldExtractionTool_run gen lds doc h) =
             Inr \<lparr>er_fields = dict_get d ''fields'' (JObj []), er_form_type = dict_get d ''form_type'' JNull,
                  er_confidence = dict_get d ''confidence'' (JFloat ''0.0''),
                  er_reasoning = dict_get d ''reasoning'' (JStr [])\<rparr>
           \<and> fst (QuestionAnsweringTool_run gen lds question doc ctx h) =
             Inr \<lparr>qa_answer = dict_get d ''answer'' (JStr ''Unable to determine''),
                  qa_confidence = dict_get d ''confidence'' (JFloat ''0.0''),
                  qa_evidence = dict_get d ''evidence'' (JArr []),
                  qa_reasoning = dict_get d ''reasoning'' (JStr [])\<rparr>
           \<and> fst (SummarizationTool_run gen lds doc ctx style h) =
             Inr \<lparr>sr_summary = dict_get d ''summary'' (JStr []),
                  sr_key_points = dict_get d ''key_points'' (JArr []),
                  sr_form_type = dict_get d ''form_type'' (JStr ''unknown''),
                  sr_important_values = dict_get d ''important_values'' (JObj [])\<rparr>
           \<and> fst (CrossDocumentAnalysisTool_run gen lds question docs ctxs h) =
             Inr \<lparr>ar_answer = dict_get d ''answer'' (JStr []),
                  ar_insights = dict_get d ''insights'' (JArr []),
                  ar_comparisons = dict_get d ''comparisons'' (JObj []),
                  ar_statistics = dict_get d ''statistics'' (JObj [])\<rparr>"
    by (simp add: FieldExtractionTool_run_def QuestionAnsweringTool_run_def SummarizationTool_run_def
          CrossDocumentAnalysisTool_run_def ans to_results_object)
  have get: "(map_of d k = None \<longrightarrow> dict_get d k dflt = dflt) \<and> (map_of d k = Some x \<longrightarrow> dict_get d k dflt = x)"
    by (simp add: dict_get_def)
  have err: "decode_response lds raw = Inl e \<longrightarrow>
           fst (FieldExtractionTool_run gen lds doc h) = Inl e
           \<and> fst (QuestionAnsweringTool_run gen lds question doc ctx h) = Inl e
           \<and> fst (SummarizationTool_run gen lds doc ctx style h) = Inl e
           \<and> fst (CrossDocumentAnalysisTool_run gen lds question docs ctxs h) = Inl e"
    by (simp add: FieldExtractionTool_run_def QuestionAnsweringTool_run_def SummarizationTool_run_def
          CrossDocumentAnalysisTool_run_def ans)
  have other: "decode_response lds raw = Inr v \<and> (\<forall>d. v \<noteq> JObj d) \<longrightarrow>
           fst (FieldExtractionTool_run gen lds doc h) = Inl AttributeError
           \<and> fst (QuestionAnsweringTool_run gen lds question doc ctx h) = Inl AttributeError
           \<and> fst (SummarizationTool_run gen lds doc ctx style h) = Inl AttributeError
           \<and> fst (CrossDocumentAnalysisTool_run gen lds question docs ctxs h) = Inl AttributeError"
    by (simp add: FieldExtractionTool_run_def QuestionAnsweringTool_run_def SummarizationTool_run_def
          CrossDocumentAnalysisTool_run_def ans to_results_other)
  show ?thesis
    using obj get err other by blast
qed

theorem tools_fill_defaults_witness:
  \<open>fst (QuestionAnsweringTool_run (\<lambda>h req. Inr ''{"answer": "John"}'') json_loads ''Who is named?''
          (new_document ''w2.txt'' ''txt'' ''Name: John'') (JObj []) [])
     = Inr \<lparr>qa_answer = JStr ''John'', qa_confidence = JFloat ''0.0'', qa_evidence = JArr [],
            qa_reasoning = JStr []\<rparr>
   \<and> fst (FieldExtractionTool_run (\<lambda>h req. Inr ''{"answer": "John"}'') json_loads
          (new_document ''w2.txt'' ''txt'' ''Name: John'') [])
     = Inr \<lparr>er_fields = JObj [], er_form_type = JNull, er_confidence = JFloat ''0.0'',
            er_reasoning = JStr []\<rparr>
   \<and> fst (SummarizationTool_run (\<lambda>h req. Inr ''not json'') json_loads
          (new_document ''w2.txt'' ''txt'' ''Name: John'') (JObj []) ''brief'' [])
     = Inl (FailedToParse ''not json'')\<close>
proof -
  have ok: \<open>decode_response json_loads ''{"answer": "John"}'' = Inr (JObj [(''answer'', JStr ''John'')])\<close>
    by code_simp
  have bad: "decode_response json_loads ''not json'' = Inl (FailedToParse ''not json'')"
    by code_simp
  have g1: \<open>\<forall>req. (\<lambda>h req. Inr ''{"answer": "John"}'' :: exc + string) ([] :: request list) (req :: request) = Inr ''{"answer": "John"}''\<close>
    by simp
  have g2: \<open>\<forall>req. (\<lambda>h req. Inr ''not json'' :: exc + string) ([] :: request list) (req :: request) = Inr ''not json''\<close>
    by simp
  show ?thesis
    using tools_fill_defaults [OF g1, where lds = json_loads and d = "[(''answer'', JStr ''John'')]"
            and doc = "new_document ''w2.txt'' ''txt'' ''Name: John''" and question = "''Who is named?''"
            and ctx = "JObj []"] ok
      tools_fill_defaults [OF g2, where lds = json_loads and style = "''brief''"
            and e = "FailedToParse ''not json''"
            and doc = "new_document ''w2.txt'' ''txt'' ''Name: John''" and ctx = "JObj []"] bad
    by (simp add: dict_get_def)
qed

text \<open>
  The claim as stated makes a response that cannot be parsed as JSON the only error, and
  every list or mapping field non-null. The response \<open>[]\<close> parses as JSON and the tool
  raises AttributeError; the response with \<open>evidence\<close> set to \<open>null\<close> is a JSON mapping
  and the result's list of evidence is \<open>None\<close>.
\<close>

theorem tools_null_and_array_counterexample:
  \<open>decode_response json_loads ''[]'' = Inr (JArr [])
   \<and> fst (QuestionAnsweringTool_run (\<lambda>h req. Inr ''[]'') json_loads ''Who is named?''
          (new_document ''w2.txt'' ''txt'' ''Name: John'') (JObj []) [])
       = Inl AttributeError
   \<and> decode_response json_loads ''{"evidence": null}'' = Inr (JObj [(''evidence'', JNull)])
   \<and> fst (QuestionAnsweringTool_run (\<lambda>h req. Inr ''{"evidence": null}'') json_loads ''Who is named?''
          (new_document ''w2.txt'' ''txt'' ''Name: John'') (JObj []) [])
       = Inr \<lparr>qa_answer = JStr ''Unable to determine'', qa_confidence = JFloat ''0.0'',
              qa_evidence = JNull, qa_reasoning = JStr []\<rparr>\<close>
proof -
  have arr: "decode_response json_loads ''[]'' = Inr (JArr [])"
    by code_simp
  have nul: \<open>decode_response json_loads ''{"evidence": null}'' = Inr (JObj [(''evidence'', JNull)])\<close>
    by code_simp
  show ?thesis
    by (simp add: arr nul QuestionAnsweringTool_run_def run_tool_def generate_structured_def
          to_QAResult_def result_get_def dict_get_def)
qed

subsection \<open>Ingestion of existing files\<close>










end
